theory Spec2Isabelle
  imports Complex_Main "HOL-Library.Sublist"
begin

section \<open>Data model\<close>

text \<open>
  A row of \<open>segments_df\<close>: the columns \<open>labels\<close>, \<open>start\<close>, \<open>stop\<close> produced by
  \<open>_process_segmentation_csv\<close>. The two time columns are Python floats (seconds); they
  are modelled as reals, so the rounding of binary floating point is not represented.
  The index of a row (\<open>idx\<close> in \<open>iterrows\<close>) is its position in the table, as
  \<open>pd.read_csv\<close> assigns it.
\<close>

record row =
  labels :: string
  start :: real
  stop :: real

text \<open>
  An audio segment is the list of its frames; the frame \<open>0\<close> is digital silence. The
  code handles audio through pydub, whose lengths, positions and durations are whole
  milliseconds. The methods are written first for a recording of 1000 frames per second,
  where a frame lasts one millisecond and the length of the list is \<open>len(audio)\<close>; the
  operations of pydub and \<open>create_synchronized_tracks\<close> are then given for any frame
  rate, where milliseconds are converted to frames and back.
\<close>

type_synonym audio = "int list"

datatype content =
    Wav audio
  | ListFile "string list"
  | Zip "(string \<times> content) list"

datatype error =
    ValueError string
  | FileNotFoundError string
  | CouldntDecodeError
  | TooManyMissingFrames

datatype 'a outcome = Raised error | Returned 'a

text \<open>The lines the methods print, one constructor for each \<open>print\<close> of the source.\<close>

datatype msg =
    ExtractingSegments string
  | NoSegmentsFound string
  | ErrorExtractingSegment nat
  | NoSegmentsExtracted string
  | SuccessfullyCreated string
  | ErrorConcatenating
  | BothFilesMustExist
  | CreatingStereoMix
  | StereoMixCreated string
  | ErrorCreatingStereoMix
  | CreatingSynchronizedTracks
  | DurationVerification int int int
  | SynchronizedTracksCreated string string
  | NoSegmentFilesFound string
  | CreatingArchive string
  | ArchiveCreated nat string
  | CouldNotRemove string

text \<open>
  The state the methods read and change: the fields of the \<open>PodcastSpeakerSeparator\<close>
  object (\<open>audio_file_path\<close>, \<open>segmenter\<close>, \<open>segments_df\<close>, \<open>audio\<close>), the files on disk,
  the files the operating system refuses to remove, and the standard output.
\<close>

record state =
  audio_file_path :: string
  segmenter :: "unit option"
  segments_df :: "row list option"
  audio :: "audio option"
  files :: "string \<rightharpoonup> content"
  undeletable :: "string set"
  stdout :: "msg list"

definition py_print :: "msg \<Rightarrow> state \<Rightarrow> state" where
  "py_print m s = s\<lparr>stdout := stdout s @ [m]\<rparr>"

definition write_file :: "string \<Rightarrow> content \<Rightarrow> state \<Rightarrow> state" where
  "write_file p c s = s\<lparr>files := (files s)(p \<mapsto> c)\<rparr>"

section \<open>The audio operations of pydub, at one frame per millisecond\<close>

text \<open>\<open>int(x)\<close> of Python truncates towards zero.\<close>

definition py_int :: "real \<Rightarrow> int" where
  "py_int x = (if x < 0 then \<lceil>x\<rceil> else \<lfloor>x\<rfloor>)"

text \<open>
  \<open>AudioSegment.silent(duration=d)\<close>: \<open>d\<close> frames of one millisecond; a negative duration
  gives the empty segment.
\<close>

definition silent :: "int \<Rightarrow> audio" where
  "silent d = replicate (nat d) 0"

text \<open>The bounds of a Python slice \<open>data[i:j]\<close> on a sequence of length \<open>n\<close>.\<close>

definition py_bound :: "int \<Rightarrow> int \<Rightarrow> nat" where
  "py_bound n i = nat (if i < 0 then max 0 (i + n) else min i n)"

definition py_slice :: "'a list \<Rightarrow> int \<Rightarrow> int \<Rightarrow> 'a list" where
  "py_slice xs i j =
     (let n = int (length xs); lo = py_bound n i; hi = py_bound n j
      in take (hi - lo) (drop lo xs))"

text \<open>\<open>_parse_position\<close>: a negative position counts from the end.\<close>

definition parse_position :: "audio \<Rightarrow> int \<Rightarrow> int" where
  "parse_position a v = (if v < 0 then int (length a) - \<bar>v\<bar> else v)"

text \<open>
  \<open>audio[start_ms:stop_ms]\<close>: both bounds are first cut to the length of the audio; a
  result shorter than the bounds ask for is filled with silence when at most 2 ms are
  missing, and raises \<open>TooManyMissingFrames\<close> beyond that.
\<close>

definition audio_slice :: "audio \<Rightarrow> int \<Rightarrow> int \<Rightarrow> error + audio" where
  "audio_slice a start_ms stop_ms =
     (let n = int (length a);
          s = parse_position a (min start_ms n);
          e = parse_position a (min stop_ms n);
          data = py_slice a s e;
          missing = (e - s) - int (length data)
      in if missing \<noteq> 0 then
           (if missing > 2 then Inl TooManyMissingFrames
            else Inr (if data = [] then data else data @ replicate (nat missing) 0))
         else Inr data)"

section \<open>create_synchronized_tracks\<close>

definition start_ms :: "row \<Rightarrow> int" where
  "start_ms r = py_int (start r * 1000)"

definition stop_ms :: "row \<Rightarrow> int" where
  "stop_ms r = py_int (stop r * 1000)"

text \<open>
  One turn of the loop over \<open>segments_df.iterrows()\<close>. The accumulator is
  \<open>(male_audio, female_audio, current_time_ms)\<close>.
\<close>

fun sync_step ::
  "audio \<Rightarrow> audio \<times> audio \<times> int \<Rightarrow> row \<Rightarrow> error + audio \<times> audio \<times> int" where
  "sync_step a (male_audio, female_audio, current_time_ms) r =
     (let duration_ms = stop_ms r - start_ms r;
          gap = (if start_ms r > current_time_ms
                 then silent (start_ms r - current_time_ms) else []);
          male1 = male_audio @ gap;
          female1 = female_audio @ gap
      in case audio_slice a (start_ms r) (stop_ms r) of
           Inl e \<Rightarrow> Inl e
         | Inr segment_audio \<Rightarrow>
             if labels r = ''male'' then
               Inr (male1 @ segment_audio, female1 @ silent duration_ms, stop_ms r)
             else if labels r = ''female'' then
               Inr (male1 @ silent duration_ms, female1 @ segment_audio, stop_ms r)
             else
               Inr (male1 @ silent duration_ms, female1 @ silent duration_ms, stop_ms r))"

fun sync_loop ::
  "audio \<Rightarrow> audio \<times> audio \<times> int \<Rightarrow> row list \<Rightarrow> error + audio \<times> audio \<times> int" where
  "sync_loop a acc [] = Inr acc"
| "sync_loop a acc (r # rs) =
     (case sync_step a acc r of Inl e \<Rightarrow> Inl e | Inr acc' \<Rightarrow> sync_loop a acc' rs)"

text \<open>\<open>AudioSegment.from_file(str(self.audio_file_path))\<close>.\<close>

definition from_file :: "state \<Rightarrow> error + audio" where
  "from_file s =
     (case files s (audio_file_path s) of
        None \<Rightarrow> Inl (FileNotFoundError (audio_file_path s))
      | Some (Wav a) \<Rightarrow> Inr a
      | Some _ \<Rightarrow> Inl CouldntDecodeError)"

text \<open>The silence appended after the loop, up to the length of the original audio.\<close>

definition remaining :: "audio \<Rightarrow> int \<Rightarrow> audio" where
  "remaining a current_time_ms =
     (if current_time_ms < int (length a)
      then silent (int (length a) - current_time_ms) else [])"

text \<open>
  The part of the method after the loop: the trailing silence, the printed durations and
  the two exports.
\<close>

definition finish_tracks ::
  "string \<Rightarrow> string \<Rightarrow> audio \<Rightarrow> audio \<times> audio \<times> int \<Rightarrow> state \<Rightarrow>
     (string \<times> string) outcome \<times> state" where
  "finish_tracks male_output female_output a acc s =
     (let male_final = fst acc @ remaining a (snd (snd acc));
          female_final = fst (snd acc) @ remaining a (snd (snd acc));
          s3 = py_print (DurationVerification (int (length a))
                 (int (length male_final)) (int (length female_final))) s;
          s4 = write_file male_output (Wav male_final) s3;
          s5 = write_file female_output (Wav female_final) s4;
          s6 = py_print (SynchronizedTracksCreated male_output female_output) s5
      in (Returned (male_output, female_output), s6))"

definition create_synchronized_tracks ::
  "string \<Rightarrow> string \<Rightarrow> state \<Rightarrow> (string \<times> string) outcome \<times> state" where
  "create_synchronized_tracks male_output female_output s =
     (case segments_df s of
        None \<Rightarrow> (Raised (ValueError ''Must run segment_audio() first''), s)
      | Some df \<Rightarrow>
          (let s1 = py_print CreatingSynchronizedTracks s in
           (case from_file s1 of
              Inl e \<Rightarrow> (Raised e, s1)
            | Inr a \<Rightarrow>
                (let s2 = s1\<lparr>audio := Some a\<rparr> in
                 (case sync_loop a ([], [], 0) df of
                    Inl e \<Rightarrow> (Raised e, s2)
                  | Inr acc \<Rightarrow> finish_tracks male_output female_output a acc s2)))))"

section \<open>The external commands\<close>

text \<open>
  The three \<open>ffmpeg\<close> command lines the code builds: cutting a clip out of the input
  (\<open>-i input -ss start -to stop -c copy output\<close>), joining the clips named in a list
  file (\<open>-f concat -safe 0 -i list_file -c copy output\<close>) and merging two files into
  one stereo file (\<open>amerge\<close>).
\<close>

datatype ffmpeg_cmd =
    Extract string real real string
  | Concat string string
  | Amerge string string string

fun output_of :: "ffmpeg_cmd \<Rightarrow> string" where
  "output_of (Extract i ss to out) = out"
| "output_of (Concat l out) = out"
| "output_of (Amerge m f out) = out"

text \<open>
  \<open>ffmpeg\<close> is a program outside the repository, so it is a parameter of every method
  that calls it: given the command and the files on disk it either exits with status 0,
  having written its output file, or exits with another status
  (\<open>subprocess.CalledProcessError\<close> under \<open>check=True\<close>), having written nothing or a
  partial output file.
\<close>

datatype ffmpeg_result = Succeeded content | Failed "content option"

type_synonym ffmpeg = "ffmpeg_cmd \<Rightarrow> (string \<rightharpoonup> content) \<Rightarrow> ffmpeg_result"

fun succeeded :: "ffmpeg_result \<Rightarrow> bool" where
  "succeeded (Succeeded c) = True"
| "succeeded (Failed partial) = False"

text \<open>\<open>subprocess.run(cmd, check=True, capture_output=True)\<close>; the flag tells whether it returned.\<close>

definition subprocess_run :: "ffmpeg \<Rightarrow> ffmpeg_cmd \<Rightarrow> state \<Rightarrow> bool \<times> state" where
  "subprocess_run ffmpeg cmd s =
     (case ffmpeg cmd (files s) of
        Succeeded c \<Rightarrow> (True, write_file (output_of cmd) c s)
      | Failed None \<Rightarrow> (False, s)
      | Failed (Some c) \<Rightarrow> (False, write_file (output_of cmd) c s))"

section \<open>extract_speaker_segments\<close>

text \<open>\<open>str(idx)\<close> for a row index.\<close>

function str_nat :: "nat \<Rightarrow> string" where
  "str_nat n =
     (if n < 10 then [''0123456789'' ! n]
      else str_nat (n div 10) @ [''0123456789'' ! (n mod 10)])"
  by pat_completeness auto
termination
  by (relation "measure id") auto

declare str_nat.simps [simp del]

definition segment_file_name :: "string \<Rightarrow> nat \<Rightarrow> string" where
  "segment_file_name speaker_label idx = speaker_label @ ''_segment_'' @ str_nat idx @ ''.wav''"

definition list_file_name :: "string \<Rightarrow> string" where
  "list_file_name speaker_label = speaker_label @ ''_segments.txt''"

text \<open>\<open>self.segments_df[self.segments_df['labels'] == speaker_label]\<close>: the rows keep their index.\<close>

definition speaker_segments :: "row list \<Rightarrow> string \<Rightarrow> (nat \<times> row) list" where
  "speaker_segments df speaker_label =
     filter (\<lambda>(idx, r). labels r = speaker_label) (enumerate 0 df)"

text \<open>
  One turn of the extraction loop: a clip that \<open>ffmpeg\<close> wrote is appended to
  \<open>segment_files\<close>; a \<open>CalledProcessError\<close> is printed and the loop continues.
\<close>

fun extract_step ::
  "ffmpeg \<Rightarrow> string \<Rightarrow> string list \<times> state \<Rightarrow> nat \<times> row \<Rightarrow> string list \<times> state" where
  "extract_step ffmpeg speaker_label (segment_files, s) (idx, r) =
     (let segment_file = segment_file_name speaker_label idx;
          cmd = Extract (audio_file_path s) (start r) (stop r) segment_file
      in case subprocess_run ffmpeg cmd s of
           (True, s') \<Rightarrow> (segment_files @ [segment_file], s')
         | (False, s') \<Rightarrow> (segment_files, py_print (ErrorExtractingSegment idx) s'))"

fun extract_loop ::
  "ffmpeg \<Rightarrow> string \<Rightarrow> string list \<times> state \<Rightarrow> (nat \<times> row) list \<Rightarrow> string list \<times> state" where
  "extract_loop ffmpeg speaker_label acc [] = acc"
| "extract_loop ffmpeg speaker_label acc (x # xs) =
     extract_loop ffmpeg speaker_label (extract_step ffmpeg speaker_label acc x) xs"

text \<open>
  \<open>_cleanup_temp_files\<close>: a file that exists is removed; an \<open>OSError\<close> of \<open>os.remove\<close> is
  printed as a warning and the file stays.
\<close>

fun cleanup_temp_files :: "string list \<Rightarrow> state \<Rightarrow> state" where
  "cleanup_temp_files [] s = s"
| "cleanup_temp_files (file_path # file_list) s =
     cleanup_temp_files file_list
       (if files s file_path \<noteq> None then
          (if file_path \<in> undeletable s then py_print (CouldNotRemove file_path) s
           else s\<lparr>files := (files s)(file_path := None)\<rparr>)
        else s)"

text \<open>The part of the method from the list file on: writing it, joining the clips, cleaning up.\<close>

definition concat_segments ::
  "ffmpeg \<Rightarrow> string \<Rightarrow> string \<Rightarrow> string list \<Rightarrow> state \<Rightarrow> string option outcome \<times> state" where
  "concat_segments ffmpeg speaker_label output_filename segment_files s =
     (let list_file = list_file_name speaker_label;
          s3 = write_file list_file (ListFile segment_files) s
      in case subprocess_run ffmpeg (Concat list_file output_filename) s3 of
           (True, s4) \<Rightarrow>
             (Returned (Some output_filename),
              cleanup_temp_files (segment_files @ [list_file])
                (py_print (SuccessfullyCreated output_filename) s4))
         | (False, s4) \<Rightarrow> (Returned None, py_print ErrorConcatenating s4))"

definition extract_speaker_segments ::
  "ffmpeg \<Rightarrow> string \<Rightarrow> string \<Rightarrow> state \<Rightarrow> string option outcome \<times> state" where
  "extract_speaker_segments ffmpeg speaker_label output_filename s =
     (case segments_df s of
        None \<Rightarrow> (Raised (ValueError ''Must run segment_audio() first''), s)
      | Some df \<Rightarrow>
          (let s1 = py_print (ExtractingSegments speaker_label) s in
           if speaker_segments df speaker_label = [] then
             (Returned None, py_print (NoSegmentsFound speaker_label) s1)
           else
             (let res = extract_loop ffmpeg speaker_label ([], s1)
                          (speaker_segments df speaker_label)
              in if fst res = [] then
                   (Returned None, py_print (NoSegmentsExtracted speaker_label) (snd res))
                 else concat_segments ffmpeg speaker_label output_filename (fst res) (snd res))))"

section \<open>create_stereo_mix\<close>

definition create_stereo_mix ::
  "ffmpeg \<Rightarrow> string \<Rightarrow> string \<Rightarrow> string \<Rightarrow> state \<Rightarrow> string option outcome \<times> state" where
  "create_stereo_mix ffmpeg male_file female_file output_filename s =
     (if \<not> (files s male_file \<noteq> None \<and> files s female_file \<noteq> None) then
        (Returned None, py_print BothFilesMustExist s)
      else
        (let s1 = py_print CreatingStereoMix s
         in case subprocess_run ffmpeg (Amerge male_file female_file output_filename) s1 of
              (True, s2) \<Rightarrow>
                (Returned (Some output_filename), py_print (StereoMixCreated output_filename) s2)
            | (False, s2) \<Rightarrow> (Returned None, py_print ErrorCreatingStereoMix s2)))"

section \<open>create_segment_archive\<close>

text \<open>\<open>os.path.basename\<close>: what follows the last slash.\<close>

definition basename :: "string \<Rightarrow> string" where
  "basename p = rev (takeWhile (\<lambda>c. c \<noteq> CHR ''/'') (rev p))"

text \<open>
  The loop \<open>zipf.write(file, os.path.basename(file))\<close>: it reads each file and appends
  one entry; a file that is not there raises \<open>FileNotFoundError\<close>, and the \<open>with\<close>
  block closes the archive with the entries written so far.
\<close>

fun zip_write ::
  "(string \<rightharpoonup> content) \<Rightarrow> string list \<Rightarrow> (string \<times> content) list \<Rightarrow>
     error option \<times> (string \<times> content) list" where
  "zip_write fs [] entries = (None, entries)"
| "zip_write fs (file # segment_files) entries =
     (case fs file of
        None \<Rightarrow> (Some (FileNotFoundError file), entries)
      | Some c \<Rightarrow> zip_write fs segment_files (entries @ [(basename file, c)]))"

text \<open>
  \<open>glob.glob\<close> belongs to the standard library and reads the directory: it is a
  parameter, from the pattern and the files on disk to the list of matching paths.
\<close>

definition create_segment_archive ::
  "(string \<Rightarrow> (string \<rightharpoonup> content) \<Rightarrow> string list) \<Rightarrow> string \<Rightarrow> string option \<Rightarrow> state \<Rightarrow>
     string option outcome \<times> state" where
  "create_segment_archive glob speaker_label archive_name_arg s =
     (let archive_name = (case archive_name_arg of
                            None \<Rightarrow> speaker_label @ ''_segments.zip''
                          | Some n \<Rightarrow> n);
          segment_files = glob (speaker_label @ ''_segment*.wav'') (files s)
      in if segment_files = [] then
           (Returned None, py_print (NoSegmentFilesFound speaker_label) s)
         else
           (let s1 = py_print (CreatingArchive archive_name) s;
                s2 = write_file archive_name (Zip []) s1;
                res = zip_write (files s2) segment_files [];
                s3 = write_file archive_name (Zip (snd res)) s2
            in case fst res of
                 Some e \<Rightarrow> (Raised e, s3)
               | None \<Rightarrow>
                   (Returned (Some archive_name),
                    py_print (ArchiveCreated (length segment_files) archive_name) s3)))"

section \<open>The audio operations of pydub at any frame rate\<close>

text \<open>
  pydub stores an audio segment as frames and converts between milliseconds and frames
  with the frame rate of the segment. The operations are given here for any frame rate;
  an \<open>audio\<close> value is the list of the frames, and a frame \<open>0\<close> is digital silence. At
  1000 frames per second a frame lasts one millisecond, and the operations coincide with
  the ones above (lemmas \<open>silent_at_1000\<close> to \<open>create_synchronized_tracks_at_1000\<close>).
  Python computes the conversions in binary floating point; they are taken here over
  the reals, as the time columns are. Concatenation adds frames: both operands of every
  \<open>+=\<close> of \<open>create_synchronized_tracks\<close> have the frame rate of the recording.
\<close>

text \<open>\<open>round(x)\<close> of Python 3 rounds to the nearest integer, and a half to the even one.\<close>

definition py_round :: "real \<Rightarrow> int" where
  "py_round x =
     (let f = \<lfloor>x\<rfloor>; d = x - of_int f
      in if d < 1 / 2 then f else if 1 / 2 < d then f + 1
         else if even f then f else f + 1)"

text \<open>\<open>frame_count(ms=...)\<close>: \<open>ms * (self.frame_rate / 1000.0)\<close>, a float.\<close>

definition frame_count :: "int \<Rightarrow> int \<Rightarrow> real" where
  "frame_count frame_rate ms = of_int ms * (of_int frame_rate / 1000)"

text \<open>\<open>len(audio)\<close>: \<open>round(1000 * (self.frame_count() / self.frame_rate))\<close>, in ms.\<close>

definition len_at :: "int \<Rightarrow> audio \<Rightarrow> int" where
  "len_at frame_rate a = py_round (1000 * (of_nat (length a) / of_int frame_rate))"

text \<open>
  \<open>AudioSegment.silent(duration=d, frame_rate=...)\<close>:
  \<open>int(frame_rate * (duration / 1000.0))\<close> frames of silence.
\<close>

definition silent_at :: "int \<Rightarrow> int \<Rightarrow> audio" where
  "silent_at frame_rate d =
     replicate (nat (py_int (of_int frame_rate * (of_int d / 1000)))) 0"

text \<open>\<open>_parse_position\<close>: the frame at a position in ms; a negative one counts from the end.\<close>

definition parse_position_at :: "int \<Rightarrow> audio \<Rightarrow> int \<Rightarrow> int" where
  "parse_position_at frame_rate a v =
     py_int (frame_count frame_rate (if v < 0 then len_at frame_rate a - \<bar>v\<bar> else v))"

text \<open>
  \<open>audio[from_ms:to_ms]\<close>: the bounds are cut to \<open>len(audio)\<close> and turned into frames;
  frames that the data lacks are filled with silence if they are no more than
  \<open>frame_count(ms=2)\<close>, and raise \<open>TooManyMissingFrames\<close> otherwise.
\<close>

definition audio_slice_at :: "int \<Rightarrow> audio \<Rightarrow> int \<Rightarrow> int \<Rightarrow> error + audio" where
  "audio_slice_at frame_rate a from_ms to_ms =
     (let n = len_at frame_rate a;
          s = parse_position_at frame_rate a (min from_ms n);
          e = parse_position_at frame_rate a (min to_ms n);
          data = py_slice a s e;
          missing = (e - s) - int (length data)
      in if missing \<noteq> 0 then
           (if of_int missing > frame_count frame_rate 2 then Inl TooManyMissingFrames
            else Inr (if data = [] then data else data @ replicate (nat missing) 0))
         else Inr data)"

text \<open>
  \<open>create_synchronized_tracks\<close> over these operations. The frame rate is that of the
  decoded recording, \<open>self.audio.frame_rate\<close>, which the code passes to every \<open>silent\<close>.
\<close>

fun sync_step_at ::
  "int \<Rightarrow> audio \<Rightarrow> audio \<times> audio \<times> int \<Rightarrow> row \<Rightarrow> error + audio \<times> audio \<times> int" where
  "sync_step_at frame_rate a (male_audio, female_audio, current_time_ms) r =
     (let duration_ms = stop_ms r - start_ms r;
          gap = (if start_ms r > current_time_ms
                 then silent_at frame_rate (start_ms r - current_time_ms) else []);
          male1 = male_audio @ gap;
          female1 = female_audio @ gap
      in case audio_slice_at frame_rate a (start_ms r) (stop_ms r) of
           Inl e \<Rightarrow> Inl e
         | Inr segment_audio \<Rightarrow>
             if labels r = ''male'' then
               Inr (male1 @ segment_audio, female1 @ silent_at frame_rate duration_ms,
                    stop_ms r)
             else if labels r = ''female'' then
               Inr (male1 @ silent_at frame_rate duration_ms, female1 @ segment_audio,
                    stop_ms r)
             else
               Inr (male1 @ silent_at frame_rate duration_ms,
                    female1 @ silent_at frame_rate duration_ms, stop_ms r))"

fun sync_loop_at ::
  "int \<Rightarrow> audio \<Rightarrow> audio \<times> audio \<times> int \<Rightarrow> row list \<Rightarrow> error + audio \<times> audio \<times> int" where
  "sync_loop_at frame_rate a acc [] = Inr acc"
| "sync_loop_at frame_rate a acc (r # rs) =
     (case sync_step_at frame_rate a acc r of
        Inl e \<Rightarrow> Inl e
      | Inr acc' \<Rightarrow> sync_loop_at frame_rate a acc' rs)"

definition remaining_at :: "int \<Rightarrow> audio \<Rightarrow> int \<Rightarrow> audio" where
  "remaining_at frame_rate a current_time_ms =
     (if current_time_ms < len_at frame_rate a
      then silent_at frame_rate (len_at frame_rate a - current_time_ms) else [])"

definition finish_tracks_at ::
  "int \<Rightarrow> string \<Rightarrow> string \<Rightarrow> audio \<Rightarrow> audio \<times> audio \<times> int \<Rightarrow> state \<Rightarrow>
     (string \<times> string) outcome \<times> state" where
  "finish_tracks_at frame_rate male_output female_output a acc s =
     (let male_final = fst acc @ remaining_at frame_rate a (snd (snd acc));
          female_final = fst (snd acc) @ remaining_at frame_rate a (snd (snd acc));
          s3 = py_print (DurationVerification (len_at frame_rate a)
                 (len_at frame_rate male_final) (len_at frame_rate female_final)) s;
          s4 = write_file male_output (Wav male_final) s3;
          s5 = write_file female_output (Wav female_final) s4;
          s6 = py_print (SynchronizedTracksCreated male_output female_output) s5
      in (Returned (male_output, female_output), s6))"

definition create_synchronized_tracks_at ::
  "int \<Rightarrow> string \<Rightarrow> string \<Rightarrow> state \<Rightarrow> (string \<times> string) outcome \<times> state" where
  "create_synchronized_tracks_at frame_rate male_output female_output s =
     (case segments_df s of
        None \<Rightarrow> (Raised (ValueError ''Must run segment_audio() first''), s)
      | Some df \<Rightarrow>
          (let s1 = py_print CreatingSynchronizedTracks s in
           (case from_file s1 of
              Inl e \<Rightarrow> (Raised e, s1)
            | Inr a \<Rightarrow>
                (let s2 = s1\<lparr>audio := Some a\<rparr> in
                 (case sync_loop_at frame_rate a ([], [], 0) df of
                    Inl e \<Rightarrow> (Raised e, s2)
                  | Inr acc \<Rightarrow>
                      finish_tracks_at frame_rate male_output female_output a acc s2)))))"

section \<open>Observations and sample inputs\<close>

text \<open>
  A segment list is chronological over a recording of \<open>n\<close> ms when, from the cursor on,
  every segment starts at or after the stop of the one before it, no segment stops before
  it starts, and the last one stops within the recording.
\<close>

fun chronological :: "int \<Rightarrow> row list \<Rightarrow> int \<Rightarrow> bool" where
  "chronological cursor [] n = (cursor \<le> n)"
| "chronological cursor (r # rs) n =
     (cursor \<le> start_ms r \<and> start_ms r \<le> stop_ms r \<and> chronological (stop_ms r) rs n)"

text \<open>The length in ms of an audio file on disk, as \<open>len(AudioSegment.from_file(p))\<close> reads it.\<close>

definition wav_length :: "state \<Rightarrow> string \<Rightarrow> nat option" where
  "wav_length s p = (case files s p of Some (Wav a) \<Rightarrow> Some (length a) | _ \<Rightarrow> None)"

text \<open>A recording of 10 s.\<close>

definition recording :: audio where
  "recording = replicate 10000 7"

text \<open>The object right after \<open>__init__\<close>, and after \<open>segment_audio\<close> has stored a table.\<close>

definition fresh :: state where
  "fresh = \<lparr>audio_file_path = ''podcast.wav'', segmenter = None, segments_df = None,
            audio = None, files = [''podcast.wav'' \<mapsto> Wav recording], undeletable = {},
            stdout = []\<rparr>"

definition segmented :: "row list \<Rightarrow> state" where
  "segmented df = fresh\<lparr>segmenter := Some (), segments_df := Some df\<rparr>"

text \<open>
  Segment lists: the scenario of the specification on a 10 s recording, two segments that
  overlap, two segments out of order, and segments that stop after the end of the recording.
\<close>

definition scenario :: "row list" where
  "scenario = [\<lparr>labels = ''male'', start = 0, stop = 3\<rparr>,
               \<lparr>labels = ''female'', start = 3, stop = 5\<rparr>,
               \<lparr>labels = ''male'', start = 7, stop = 10\<rparr>]"

definition overlapping :: "row list" where
  "overlapping = [\<lparr>labels = ''male'', start = 0, stop = 5\<rparr>,
                  \<lparr>labels = ''female'', start = 3, stop = 8\<rparr>]"

definition unordered :: "row list" where
  "unordered = [\<lparr>labels = ''female'', start = 3, stop = 5\<rparr>,
                \<lparr>labels = ''male'', start = 0, stop = 3\<rparr>]"

definition overrun :: "row list" where
  "overrun = [\<lparr>labels = ''male'', start = 9, stop = 11\<rparr>]"

definition overlong :: "row list" where
  "overlong = [\<lparr>labels = ''noEnergy'', start = 0, stop = 12\<rparr>]"

text \<open>The names of the entries of an archive on disk, in the order they were written.\<close>

definition zip_names :: "state \<Rightarrow> string \<Rightarrow> string list option" where
  "zip_names s p = (case files s p of Some (Zip entries) \<Rightarrow> Some (map fst entries) | _ \<Rightarrow> None)"


text \<open>
  A run of \<open>ffmpeg\<close> that exits with status 0 on every command but those whose output
  file is in \<open>bad\<close>, on which it fails and writes nothing. What it writes otherwise does
  not matter to the properties below.
\<close>

definition ffmpeg_fails_on :: "string set \<Rightarrow> ffmpeg" where
  "ffmpeg_fails_on bad cmd fs =
     (if output_of cmd \<in> bad then Failed None else Succeeded (Wav []))"

text \<open>Two synchronized tracks of 10.0 s and 9.999 s on disk.\<close>

definition unequal_tracks :: state where
  "unequal_tracks =
     fresh\<lparr>files := [''male_voice_synced.wav'' \<mapsto> Wav (replicate 10000 0),
                      ''female_voice_synced.wav'' \<mapsto> Wav (replicate 9999 0)]\<rparr>"

text \<open>A table of five male segments, and a directory listing of two clips.\<close>

definition five_male :: "row list" where
  "five_male = [\<lparr>labels = ''male'', start = 0, stop = 1\<rparr>,
                \<lparr>labels = ''male'', start = 1, stop = 2\<rparr>,
                \<lparr>labels = ''male'', start = 2, stop = 3\<rparr>,
                \<lparr>labels = ''male'', start = 3, stop = 4\<rparr>,
                \<lparr>labels = ''male'', start = 4, stop = 5\<rparr>]"

definition two_clips :: state where
  "two_clips =
     fresh\<lparr>files := [''male_segment_0.wav'' \<mapsto> Wav [1], ''male_segment_1.wav'' \<mapsto> Wav [2]]\<rparr>"

definition glob_two_clips :: "string \<Rightarrow> (string \<rightharpoonup> content) \<Rightarrow> string list" where
  "glob_two_clips pattern fs =
     (if pattern = ''male_segment*.wav'' then [''male_segment_0.wav'', ''male_segment_1.wav'']
      else [])"

text \<open>
  The accumulator of \<open>extract_speaker_segments\<close> when its extraction loop ends: the clips
  in \<open>segment_files\<close> and the state.
\<close>

definition slicing :: "ffmpeg \<Rightarrow> string \<Rightarrow> row list \<Rightarrow> state \<Rightarrow> string list \<times> state" where
  "slicing ffmpeg speaker_label df s =
     extract_loop ffmpeg speaker_label ([], py_print (ExtractingSegments speaker_label) s)
       (speaker_segments df speaker_label)"

text \<open>The files on disk when the concatenation command starts: the list file is written.\<close>

definition files_at_concat :: "string \<Rightarrow> string list \<times> state \<Rightarrow> string \<rightharpoonup> content" where
  "files_at_concat speaker_label res =
     (files (snd res))(list_file_name speaker_label \<mapsto> ListFile (fst res))"

text \<open>The number of frames of an audio file on disk.\<close>

definition wav_frames :: "state \<Rightarrow> string \<Rightarrow> nat option" where
  "wav_frames s p = (case files s p of Some (Wav a) \<Rightarrow> Some (length a) | _ \<Rightarrow> None)"

text \<open>The object after \<open>segment_audio\<close> has stored a table, with the recording \<open>a\<close> on disk.\<close>

definition recorded :: "audio \<Rightarrow> row list \<Rightarrow> state" where
  "recorded a df =
     fresh\<lparr>segmenter := Some (), segments_df := Some df, files := [''podcast.wav'' \<mapsto> Wav a]\<rparr>"

text \<open>
  Two recordings at 44.1 kHz: one of 10 s exactly, which is 441000 frames, and one of
  22 frames more, which is not a whole number of milliseconds.
\<close>

definition recording_10s :: audio where
  "recording_10s = replicate 441000 7"

definition recording_odd :: audio where
  "recording_odd = replicate 441022 7"

text \<open>A recording of 1249 frames at 1.25 kHz, which is 999.2 ms.\<close>

definition recording_slow :: audio where
  "recording_slow = replicate 1249 7"

text \<open>Eighty male segments of 125 ms, back to back from 0 to 10 s.\<close>

definition eighths :: "row list" where
  "eighths =
     map (\<lambda>k. \<lparr>labels = ''male'', start = real k / 8, stop = (real k + 1) / 8\<rparr>) [0..<80]"

section \<open>Properties\<close>

subsection \<open>Slicing and silence\<close>

lemma length_silent: "length (silent d) = nat d"
  by (simp add: silent_def)

lemma parse_position_nonneg: "0 \<le> v \<Longrightarrow> parse_position a v = v"
  by (simp add: parse_position_def)

lemma py_slice_in_range:
  assumes "0 \<le> i" and "i \<le> int (length xs)" and "0 \<le> j" and "j \<le> int (length xs)"
  shows "py_slice xs i j = take (nat j - nat i) (drop (nat i) xs)"
proof -
  have "py_bound (int (length xs)) i = nat i" "py_bound (int (length xs)) j = nat j"
    using assms by (simp_all add: py_bound_def min_absorb1)
  then show ?thesis by (simp add: py_slice_def Let_def)
qed

lemma audio_slice_in_range:
  assumes "0 \<le> i" and "i \<le> int (length a)" and "0 \<le> j" and "j \<le> int (length a)"
  shows "audio_slice a i j = Inr (take (nat j - nat i) (drop (nat i) a))"
proof -
  define data where "data = take (nat j - nat i) (drop (nat i) a)"
  have mi: "min i (int (length a)) = i" and mj: "min j (int (length a)) = j"
    using assms by simp_all
  have sl: "py_slice a i j = data"
    using assms by (simp add: py_slice_in_range data_def)
  have unfolded: "audio_slice a i j =
      (if (j - i) - int (length data) \<noteq> 0 then
         (if (j - i) - int (length data) > 2 then Inl TooManyMissingFrames
          else Inr (if data = [] then data else data @ replicate (nat ((j - i) - int (length data))) 0))
       else Inr data)"
    using assms by (simp only: audio_slice_def Let_def mi mj parse_position_nonneg sl)
  show ?thesis
  proof (cases "i \<le> j")
    case True
    then have "int (length data) = j - i"
      using assms by (simp add: data_def)
    then show ?thesis by (simp add: unfolded data_def)
  next
    case False
    then have "data = []" "j - i < 0"
      using assms by (simp_all add: data_def)
    then show ?thesis by (simp add: unfolded)
  qed
qed

lemma audio_slice_nonneg:
  assumes "0 \<le> s" and "0 \<le> e"
  shows "audio_slice a s e =
           Inr (take (nat (min e (int (length a))) - nat (min s (int (length a))))
                  (drop (nat (min s (int (length a)))) a))"
proof -
  let ?n = "int (length a)"
  have "audio_slice a s e = audio_slice a (min s ?n) (min e ?n)"
    by (simp add: audio_slice_def)
  also have "\<dots> = Inr (take (nat (min e ?n) - nat (min s ?n)) (drop (nat (min s ?n)) a))"
    using assms by (intro audio_slice_in_range) simp_all
  finally show ?thesis .
qed

lemma from_file_py_print: "from_file (py_print m s) = from_file s"
  by (simp add: from_file_def py_print_def split: option.splits)

lemma from_file_wav: "files s (audio_file_path s) = Some (Wav a) \<Longrightarrow> from_file s = Inr a"
  by (simp add: from_file_def)

lemma create_synchronized_tracks_loop:
  assumes "segments_df s = Some df" and "files s (audio_file_path s) = Some (Wav a)"
    and "sync_loop a ([], [], 0) df = Inr acc"
  shows "create_synchronized_tracks male_output female_output s =
           finish_tracks male_output female_output a acc
             ((py_print CreatingSynchronizedTracks s)\<lparr>audio := Some a\<rparr>)"
  using assms
  by (simp add: create_synchronized_tracks_def Let_def from_file_py_print from_file_wav)

lemma wav_length_finish_tracks:
  "wav_length (snd (finish_tracks male_output female_output a (m, f, c) s)) female_output =
     Some (length (f @ remaining a c))"
  "male_output \<noteq> female_output \<Longrightarrow>
   wav_length (snd (finish_tracks male_output female_output a (m, f, c) s)) male_output =
     Some (length (m @ remaining a c))"
  by (simp_all add: finish_tracks_def Let_def wav_length_def write_file_def py_print_def)

lemma stdout_finish_tracks:
  "stdout (snd (finish_tracks male_output female_output a (m, f, c) s)) =
     stdout s @ [DurationVerification (int (length a)) (int (length (m @ remaining a c)))
                   (int (length (f @ remaining a c))),
                 SynchronizedTracksCreated male_output female_output]"
  by (simp add: finish_tracks_def Let_def write_file_def py_print_def)

lemma fst_finish_tracks:
  "fst (finish_tracks male_output female_output a acc s) = Returned (male_output, female_output)"
  by (simp add: finish_tracks_def Let_def)

subsection \<open>Sample inputs\<close>

lemma segmented_simps:
  "segments_df (segmented df) = Some df"
  "audio_file_path (segmented df) = ''podcast.wav''"
  "files (segmented df) ''podcast.wav'' = Some (Wav recording)"
  "stdout (segmented df) = []"
  by (simp_all add: segmented_def fresh_def)

lemma length_recording: "length recording = 10000"
  by (simp add: recording_def)

lemmas eval_loop = start_ms_def stop_ms_def py_int_def audio_slice_nonneg recording_def
  silent_def Let_def

subsection \<open>The operations at a frame rate\<close>

text \<open>At 1000 frames per second the operations are those at one frame per millisecond.\<close>

lemma py_int_of_int: "py_int (of_int i) = i"
  by (simp add: py_int_def)

lemma py_round_of_int: "py_round (of_int i) = i"
  by (simp add: py_round_def)

lemma frame_count_1000: "frame_count 1000 ms = of_int ms"
  by (simp add: frame_count_def)

lemma len_at_1000: "len_at 1000 a = int (length a)"
proof -
  have "1000 * (real (length a) / 1000) = of_int (int (length a))" by simp
  then show ?thesis unfolding len_at_def by (simp only: of_int_numeral py_round_of_int)
qed

lemma silent_at_1000: "silent_at 1000 d = silent d"
proof -
  have "of_int 1000 * (real_of_int d / 1000) = of_int d" by simp
  then show ?thesis unfolding silent_at_def silent_def by (simp only: py_int_of_int)
qed

lemma parse_position_at_1000: "parse_position_at 1000 a v = parse_position a v"
  by (simp add: parse_position_at_def parse_position_def frame_count_1000 len_at_1000
      py_int_of_int)

lemma audio_slice_at_1000: "audio_slice_at 1000 a s e = audio_slice a s e"
  by (simp add: audio_slice_at_def audio_slice_def parse_position_at_1000 len_at_1000
      frame_count_def Let_def)

lemma sync_step_at_1000: "sync_step_at 1000 a acc r = sync_step a acc r"
  by (cases acc) (simp add: silent_at_1000 audio_slice_at_1000 Let_def split: sum.splits)

lemma sync_loop_at_1000: "sync_loop_at 1000 a acc rs = sync_loop a acc rs"
  by (induction rs arbitrary: acc) (simp_all add: sync_step_at_1000 split: sum.splits)

lemma remaining_at_1000: "remaining_at 1000 a c = remaining a c"
  by (simp add: remaining_at_def remaining_def len_at_1000 silent_at_1000)

lemma finish_tracks_at_1000:
  "finish_tracks_at 1000 male_output female_output a acc s =
     finish_tracks male_output female_output a acc s"
  by (simp add: finish_tracks_at_def finish_tracks_def remaining_at_1000 len_at_1000 Let_def)

lemma create_synchronized_tracks_at_1000:
  "create_synchronized_tracks_at 1000 male_output female_output s =
     create_synchronized_tracks male_output female_output s"
  by (simp add: create_synchronized_tracks_at_def create_synchronized_tracks_def
      sync_loop_at_1000 finish_tracks_at_1000 Let_def split: option.splits sum.splits)

text \<open>Lengths in ms, and slices that lie within the recording.\<close>

lemma py_round_nonneg: "0 \<le> x \<Longrightarrow> 0 \<le> py_round x"
  by (simp add: py_round_def Let_def)

lemma len_at_nonneg: "0 < frame_rate \<Longrightarrow> 0 \<le> len_at frame_rate a"
  unfolding len_at_def by (rule py_round_nonneg) simp

lemma len_at_silent_at:
  assumes "2000 < frame_rate" and "0 \<le> d"
  shows "len_at frame_rate (silent_at frame_rate d) = d"
proof -
  define r :: real where "r = of_int frame_rate"
  define F where "F = \<lfloor>r * (of_int d / 1000)\<rfloor>"
  define x where "x = 1000 * (of_int F / r)"
  have r: "2000 \<le> r" using assms(1) by (simp add: r_def)
  have nonneg: "0 \<le> r * (of_int d / 1000)" using r assms(2) by simp
  then have F0: "0 \<le> F" by (simp add: F_def)
  have len: "length (silent_at frame_rate d) = nat F"
    using nonneg by (simp add: silent_at_def py_int_def F_def r_def)
  have up: "of_int F \<le> r * (of_int d / 1000)"
    unfolding F_def by (rule of_int_floor_le)
  have lo: "r * (of_int d / 1000) < of_int F + 1"
    unfolding F_def by linarith
  have xle: "x \<le> of_int d"
    using up r by (simp add: x_def field_simps)
  have rpos: "0 < r" using r by simp
  have "of_int d * r < 1000 * (of_int F + 1)"
    using lo by (simp add: field_simps)
  then have "of_int d < 1000 * (of_int F + 1) / r"
    using rpos by (simp add: pos_less_divide_eq)
  also have "1000 * (of_int F + 1) / r = x + 1000 / r"
    by (simp add: x_def add_divide_distrib distrib_left)
  finally have "of_int d - 1000 / r < x" by simp
  moreover have "1000 / r \<le> 1 / 2" using r by (simp add: field_simps)
  ultimately have xgt: "of_int d - 1 / 2 < x" by linarith
  have "py_round x = d"
  proof (cases "x = of_int d")
    case True
    then show ?thesis by (simp add: py_round_of_int)
  next
    case False
    with xle have "x < of_int d" by simp
    with xgt have fl: "\<lfloor>x\<rfloor> = d - 1" by (simp add: floor_unique)
    with xgt show ?thesis by (simp add: py_round_def Let_def)
  qed
  moreover have "len_at frame_rate (silent_at frame_rate d) = py_round x"
    using F0 by (simp add: len_at_def len x_def r_def)
  ultimately show ?thesis by simp
qed

lemma py_int_floor: "0 \<le> x \<Longrightarrow> py_int x = \<lfloor>x\<rfloor>"
  by (simp add: py_int_def)

lemma frame_count_nonneg: "0 < frame_rate \<Longrightarrow> 0 \<le> ms \<Longrightarrow> 0 \<le> frame_count frame_rate ms"
  by (simp add: frame_count_def)

lemma frame_count_mono:
  "0 < frame_rate \<Longrightarrow> s \<le> e \<Longrightarrow> frame_count frame_rate s \<le> frame_count frame_rate e"
  by (simp add: frame_count_def mult_right_mono)

lemma audio_slice_at_in_range:
  assumes "0 < frame_rate" and "0 \<le> s" and "s \<le> e" and "e \<le> len_at frame_rate a"
    and "py_int (frame_count frame_rate e) \<le> int (length a)"
  shows "audio_slice_at frame_rate a s e =
           Inr (take (nat (py_int (frame_count frame_rate e)) - nat (py_int (frame_count frame_rate s)))
                  (drop (nat (py_int (frame_count frame_rate s))) a))"
proof -
  define S where "S = py_int (frame_count frame_rate s)"
  define E where "E = py_int (frame_count frame_rate e)"
  define data where "data = take (nat E - nat S) (drop (nat S) a)"
  have e0: "0 \<le> e" using assms(2,3) by simp
  have S: "S = \<lfloor>frame_count frame_rate s\<rfloor>"
    unfolding S_def by (rule py_int_floor) (rule frame_count_nonneg [OF assms(1,2)])
  have E: "E = \<lfloor>frame_count frame_rate e\<rfloor>"
    unfolding E_def by (rule py_int_floor) (rule frame_count_nonneg [OF assms(1) e0])
  have S0: "0 \<le> S" unfolding S using frame_count_nonneg [OF assms(1,2)] by simp
  have SE: "S \<le> E" unfolding S E by (rule floor_mono) (rule frame_count_mono [OF assms(1,3)])
  have EN: "E \<le> int (length a)" using assms(5) by (simp add: E_def)
  have mins: "min s (len_at frame_rate a) = s" "min e (len_at frame_rate a) = e"
    using assms(3,4) by simp_all
  have pos: "parse_position_at frame_rate a s = S" "parse_position_at frame_rate a e = E"
    using assms(2) e0 by (simp_all add: parse_position_at_def S_def E_def)
  have sl: "py_slice a S E = data"
    unfolding data_def using S0 SE EN by (intro py_slice_in_range) simp_all
  have len: "int (length data) = E - S"
    using S0 SE EN by (simp add: data_def)
  have "audio_slice_at frame_rate a s e = Inr data"
    unfolding audio_slice_at_def Let_def mins pos sl using len by simp
  then show ?thesis by (simp add: data_def S_def E_def)
qed

lemma sync_loop_at_append:
  "sync_loop_at frame_rate a acc (rs @ [r]) =
     (case sync_loop_at frame_rate a acc rs of
        Inl e \<Rightarrow> Inl e
      | Inr acc' \<Rightarrow> sync_step_at frame_rate a acc' r)"
  by (induction rs arbitrary: acc) (simp_all split: sum.splits)

lemma create_synchronized_tracks_at_loop:
  assumes "segments_df s = Some df" and "files s (audio_file_path s) = Some (Wav a)"
    and "sync_loop_at frame_rate a ([], [], 0) df = Inr acc"
  shows "create_synchronized_tracks_at frame_rate male_output female_output s =
           finish_tracks_at frame_rate male_output female_output a acc
             ((py_print CreatingSynchronizedTracks s)\<lparr>audio := Some a\<rparr>)"
  using assms
  by (simp add: create_synchronized_tracks_at_def Let_def from_file_py_print from_file_wav)

lemma recorded_simps:
  "segments_df (recorded a df) = Some df"
  "audio_file_path (recorded a df) = ''podcast.wav''"
  "files (recorded a df) ''podcast.wav'' = Some (Wav a)"
  "stdout (recorded a df) = []"
  by (simp_all add: recorded_def fresh_def)

lemma len_recording_10s: "len_at 44100 recording_10s = 10000"
  by (simp add: len_at_def recording_10s_def py_round_def Let_def)

lemma length_recording_10s: "length recording_10s = 441000"
  by (simp add: recording_10s_def)

lemma len_at_frames:
  "length a = n \<Longrightarrow> len_at frame_rate a = py_round (1000 * (real n / of_int frame_rate))"
  by (simp add: len_at_def)

subsection \<open>Calls before segmentation\<close>

text \<open>
  C9. Called while \<open>segments_df\<close> is still unset, \<open>extract_speaker_segments\<close> and
  \<open>create_synchronized_tracks\<close> both raise \<open>ValueError\<close>, and the state after the call
  (object fields, files, output) is the state before it.
\<close>

theorem unset_segments_raise_value_error:
  assumes "segments_df s = None"
  shows "extract_speaker_segments ffmpeg speaker_label output_filename s =
           (Raised (ValueError ''Must run segment_audio() first''), s)
       \<and> create_synchronized_tracks male_output female_output s =
           (Raised (ValueError ''Must run segment_audio() first''), s)"
  using assms by (simp add: extract_speaker_segments_def create_synchronized_tracks_def)

theorem unset_segments_raise_value_error_witness:
  "segments_df fresh = None
   \<and> extract_speaker_segments (\<lambda>c fs. Failed None) ''male'' ''male_voice_concatenated.wav'' fresh =
           (Raised (ValueError ''Must run segment_audio() first''), fresh)
   \<and> create_synchronized_tracks ''male_voice_synced.wav'' ''female_voice_synced.wav'' fresh =
           (Raised (ValueError ''Must run segment_audio() first''), fresh)"
proof -
  have h: "segments_df fresh = None" by (simp add: fresh_def)
  show ?thesis using h unset_segments_raise_value_error [OF h] by simp
qed

subsection \<open>The duration of the synchronized tracks\<close>

text \<open>The frame at \<open>125 * k\<close> ms of a recording at 44.1 kHz.\<close>

lemma frame_at_eighth:
  assumes "0 \<le> j"
  shows "py_int (frame_count 44100 (125 * j)) = (11025 * j) div 2"
proof -
  have "frame_count 44100 (125 * j) = of_int (11025 * j) / of_int 2"
    by (simp add: frame_count_def)
  moreover have "0 \<le> frame_count 44100 (125 * j)"
    using assms by (simp add: frame_count_def)
  ultimately show ?thesis
    by (simp only: py_int_floor floor_divide_of_int_eq)
qed

lemma frame_at_next_eighth:
  "py_int (frame_count 44100 (125 * int k + 125)) = (11025 * int k + 11025) div 2"
  using frame_at_eighth [of "int k + 1"] by (simp add: algebra_simps)

lemma silent_at_eighth: "silent_at 44100 125 = replicate 5512 0"
  by (simp add: silent_at_def py_int_def)

lemma eighth_ms:
  "start_ms \<lparr>labels = l, start = real k / 8, stop = (real k + 1) / 8\<rparr> = 125 * int k"
  "stop_ms \<lparr>labels = l, start = real k / 8, stop = (real k + 1) / 8\<rparr> = 125 * (int k + 1)"
proof -
  have "real k / 8 * 1000 = of_int (125 * int k)"
    "(real k + 1) / 8 * 1000 = of_int (125 * (int k + 1))" by simp_all
  then show "start_ms \<lparr>labels = l, start = real k / 8, stop = (real k + 1) / 8\<rparr> = 125 * int k"
    "stop_ms \<lparr>labels = l, start = real k / 8, stop = (real k + 1) / 8\<rparr> = 125 * (int k + 1)"
    by (simp_all only: start_ms_def stop_ms_def row.simps py_int_of_int)
qed

lemma sync_step_at_eighth:
  assumes "k < 80"
    and "int (length m) = (11025 * int k) div 2" and "length f = 5512 * k"
  shows "\<exists>m' f'. sync_step_at 44100 recording_10s (m, f, 125 * int k)
             \<lparr>labels = ''male'', start = real k / 8, stop = (real k + 1) / 8\<rparr> =
           Inr (m', f', 125 * int (Suc k))
         \<and> int (length m') = (11025 * int (Suc k)) div 2 \<and> length f' = 5512 * Suc k"
proof -
  define S where "S = (11025 * int k) div 2"
  define E where "E = (11025 * int k + 11025) div 2"
  define seg where "seg = take (nat E - nat S) (drop (nat S) recording_10s)"
  have E: "E \<le> 441000" using assms(1) by (simp add: E_def)
  have S: "0 \<le> S" "S \<le> E" by (simp_all add: S_def E_def)
  have slice: "audio_slice_at 44100 recording_10s (125 * int k) (125 * int k + 125) = Inr seg"
    using assms(1) E
      audio_slice_at_in_range [of 44100 "125 * int k" "125 * int k + 125" recording_10s]
    by (simp add: len_recording_10s length_recording_10s frame_at_eighth frame_at_next_eighth
        seg_def S_def E_def)
  have "length seg = nat E - nat S"
    using S E by (simp add: seg_def length_recording_10s)
  then have lseg: "int (length seg) = E - S"
    using S by simp
  have m': "int (length (m @ seg)) = E"
    using assms(2) lseg by (simp add: S_def)
  have step: "sync_step_at 44100 recording_10s (m, f, 125 * int k)
      \<lparr>labels = ''male'', start = real k / 8, stop = (real k + 1) / 8\<rparr> =
    Inr (m @ seg, f @ replicate 5512 0, 125 * int (Suc k))"
    by (simp add: eighth_ms slice silent_at_eighth Let_def)
  have "int (length (m @ seg)) = (11025 * int (Suc k)) div 2"
    using m' by (simp add: E_def algebra_simps)
  moreover have "length (f @ replicate 5512 0) = 5512 * Suc k"
    using assms(3) by simp
  ultimately show ?thesis
    unfolding step by blast
qed

lemma sync_loop_at_eighths:
  "k \<le> 80 \<Longrightarrow>
   \<exists>m f. sync_loop_at 44100 recording_10s ([], [], 0)
       (map (\<lambda>k. \<lparr>labels = ''male'', start = real k / 8, stop = (real k + 1) / 8\<rparr>) [0..<k]) =
         Inr (m, f, 125 * int k)
       \<and> int (length m) = (11025 * int k) div 2 \<and> length f = 5512 * k"
proof (induction k)
  case 0
  then show ?case by simp
next
  case (Suc k)
  then obtain m f where loop: "sync_loop_at 44100 recording_10s ([], [], 0)
       (map (\<lambda>k. \<lparr>labels = ''male'', start = real k / 8, stop = (real k + 1) / 8\<rparr>) [0..<k]) =
         Inr (m, f, 125 * int k)"
    and lens: "int (length m) = (11025 * int k) div 2" "length f = 5512 * k"
    by auto
  from Suc.prems have "k < 80" by simp
  from sync_step_at_eighth [OF this lens] show ?case
    by (simp add: sync_loop_at_append loop del: sync_step_at.simps)
qed

lemma chronological_eighths_from:
  "i \<le> n \<Longrightarrow>
   chronological (125 * int i)
     (map (\<lambda>k. \<lparr>labels = ''male'', start = real k / 8, stop = (real k + 1) / 8\<rparr>) [i..<n])
     (125 * int n)"
proof (induction "n - i" arbitrary: i)
  case 0
  then show ?case by simp
next
  case (Suc d)
  then have less: "i < n" and le: "Suc i \<le> n" and d: "d = n - Suc i" by simp_all
  have "125 * int (Suc i) = 125 * (int i + 1)" by simp
  with Suc.hyps(1) [OF d le] have "chronological (125 * (int i + 1))
     (map (\<lambda>k. \<lparr>labels = ''male'', start = real k / 8, stop = (real k + 1) / 8\<rparr>) [Suc i..<n])
     (125 * int n)"
    by (simp only:)
  then show ?case
    unfolding upt_conv_Cons [OF less] list.map chronological.simps eighth_ms by simp
qed

lemma chronological_eighths: "chronological 0 eighths (len_at 44100 recording_10s)"
  using chronological_eighths_from [of 0 80] by (simp add: eighths_def len_recording_10s)

text \<open>
  C1. On a chronological list within the recording the tracks differ by more than one
  sample. Over a recording of 10 s at 44.1 kHz (441000 frames), the list of eighty male
  segments of 125 ms gives a male track of 441000 frames and a female track of
  \<open>80 * 5512 = 440960\<close> frames, 40 samples short: each \<open>silent(duration=125)\<close> has
  \<open>int(44100 * 0.125) = 5512\<close> frames, while the slices it stands for have 5512 and 5513
  in turn. The durations printed are 10.000 s, 10.000 s and 9.999 s.
\<close>

theorem synchronized_tracks_drift:
  "chronological 0 eighths (len_at 44100 recording_10s)
   \<and> wav_frames (recorded recording_10s eighths) ''podcast.wav'' = Some 441000
   \<and> fst (create_synchronized_tracks_at 44100 ''male_voice_synced.wav''
         ''female_voice_synced.wav'' (recorded recording_10s eighths)) =
       Returned (''male_voice_synced.wav'', ''female_voice_synced.wav'')
   \<and> wav_frames (snd (create_synchronized_tracks_at 44100 ''male_voice_synced.wav''
         ''female_voice_synced.wav'' (recorded recording_10s eighths)))
         ''male_voice_synced.wav'' = Some 441000
   \<and> wav_frames (snd (create_synchronized_tracks_at 44100 ''male_voice_synced.wav''
         ''female_voice_synced.wav'' (recorded recording_10s eighths)))
         ''female_voice_synced.wav'' = Some 440960
   \<and> stdout (snd (create_synchronized_tracks_at 44100 ''male_voice_synced.wav''
         ''female_voice_synced.wav'' (recorded recording_10s eighths))) =
       [CreatingSynchronizedTracks, DurationVerification 10000 10000 9999,
        SynchronizedTracksCreated ''male_voice_synced.wav'' ''female_voice_synced.wav'']"
proof -
  obtain m f where loop: "sync_loop_at 44100 recording_10s ([], [], 0) eighths =
      Inr (m, f, 10000)"
    and lens: "length m = 441000" "length f = 440960"
    using sync_loop_at_eighths [of 80] by (auto simp: eighths_def)
  have run: "create_synchronized_tracks_at 44100 ''male_voice_synced.wav''
      ''female_voice_synced.wav'' (recorded recording_10s eighths) =
    finish_tracks_at 44100 ''male_voice_synced.wav'' ''female_voice_synced.wav'' recording_10s
      (m, f, 10000)
      ((py_print CreatingSynchronizedTracks (recorded recording_10s eighths))
         \<lparr>audio := Some recording_10s\<rparr>)"
    by (rule create_synchronized_tracks_at_loop [OF _ _ loop]) (simp_all add: recorded_simps)
  have rem: "remaining_at 44100 recording_10s 10000 = []"
    by (simp add: remaining_at_def len_recording_10s)
  have lm: "len_at 44100 m = 10000"
    by (simp add: len_at_frames [OF lens(1)] py_round_def Let_def)
  have lf: "len_at 44100 f = 9999"
    by (simp add: len_at_frames [OF lens(2)] py_round_def Let_def)
  have source: "wav_frames (recorded recording_10s eighths) ''podcast.wav'' = Some 441000"
    by (simp add: wav_frames_def recorded_simps length_recording_10s)
  show ?thesis
    unfolding run
    using chronological_eighths source
    by (simp add: finish_tracks_at_def Let_def rem lm lf lens len_recording_10s wav_frames_def
        write_file_def py_print_def recorded_simps)
qed

subsection \<open>The check before returning\<close>

text \<open>
  C2, as amended. \<open>create_synchronized_tracks\<close> prints the three durations and compares
  nothing: whatever tracks the loop has built, of whatever lengths, both are exported and
  the two output names are returned.
\<close>

theorem durations_printed_not_checked:
  assumes "segments_df s = Some df" and "files s (audio_file_path s) = Some (Wav a)"
    and "sync_loop a ([], [], 0) df = Inr (m, f, c)"
  shows "create_synchronized_tracks male_output female_output s =
           (Returned (male_output, female_output),
            s\<lparr>audio := Some a,
              files := (files s)(male_output \<mapsto> Wav (m @ remaining a c),
                                 female_output \<mapsto> Wav (f @ remaining a c)),
              stdout := stdout s @ [CreatingSynchronizedTracks,
                DurationVerification (int (length a)) (int (length (m @ remaining a c)))
                  (int (length (f @ remaining a c))),
                SynchronizedTracksCreated male_output female_output]\<rparr>)"
  unfolding create_synchronized_tracks_loop [OF assms]
  by (simp add: finish_tracks_def Let_def py_print_def write_file_def)

lemma sync_loop_overlong:
  "sync_loop recording ([], [], 0) overlong = Inr (replicate 12000 0, replicate 12000 0, 12000)"
  by (simp add: overlong_def eval_loop)

lemma sync_loop_overrun:
  "sync_loop recording ([], [], 0) overrun =
     Inr (replicate 9000 0 @ replicate 1000 7, replicate 11000 0, 11000)"
  by (simp add: overrun_def eval_loop) (simp add: replicate_add [symmetric])

lemma sync_loop_overlapping:
  "sync_loop recording ([], [], 0) overlapping =
     Inr (replicate 5000 7 @ replicate 5000 0, replicate 5000 0 @ replicate 5000 7, 8000)"
  by (simp add: overlapping_def eval_loop)

theorem durations_printed_not_checked_witness:
  "segments_df (segmented overlapping) = Some overlapping
   \<and> files (segmented overlapping) (audio_file_path (segmented overlapping)) = Some (Wav recording)
   \<and> sync_loop recording ([], [], 0) overlapping =
        Inr (replicate 5000 7 @ replicate 5000 0, replicate 5000 0 @ replicate 5000 7, 8000)
   \<and> fst (create_synchronized_tracks ''male_voice_synced.wav'' ''female_voice_synced.wav''
         (segmented overlapping)) = Returned (''male_voice_synced.wav'', ''female_voice_synced.wav'')
   \<and> stdout (snd (create_synchronized_tracks ''male_voice_synced.wav''
         ''female_voice_synced.wav'' (segmented overlapping))) =
        [CreatingSynchronizedTracks, DurationVerification 10000 12000 12000,
         SynchronizedTracksCreated ''male_voice_synced.wav'' ''female_voice_synced.wav'']"
proof -
  have h1: "segments_df (segmented overlapping) = Some overlapping"
    by (simp add: segmented_simps)
  have h2: "files (segmented overlapping) (audio_file_path (segmented overlapping)) =
      Some (Wav recording)"
    by (simp add: segmented_simps)
  note h3 = sync_loop_overlapping
  have rem: "length (remaining recording 8000) = 2000"
    by (simp add: remaining_def length_silent length_recording)
  show ?thesis
    using h1 h2 h3
      durations_printed_not_checked [OF h1 h2 h3, of "''male_voice_synced.wav''"
        "''female_voice_synced.wav''"]
    by (simp add: rem length_recording segmented_simps)
qed

text \<open>
  The claim as stated fails on a segment that stops 2 s after the end of a 10 s recording:
  the durations 10 s, 12 s and 12 s are printed, both tracks are exported and the names
  are returned.
\<close>

theorem durations_printed_not_checked_counterexample:
  "fst (create_synchronized_tracks ''male_voice_synced.wav'' ''female_voice_synced.wav''
     (segmented overlong)) = Returned (''male_voice_synced.wav'', ''female_voice_synced.wav'')
   \<and> stdout (snd (create_synchronized_tracks ''male_voice_synced.wav''
         ''female_voice_synced.wav'' (segmented overlong))) =
        [CreatingSynchronizedTracks, DurationVerification 10000 12000 12000,
         SynchronizedTracksCreated ''male_voice_synced.wav'' ''female_voice_synced.wav'']
   \<and> wav_length (snd (create_synchronized_tracks ''male_voice_synced.wav''
         ''female_voice_synced.wav'' (segmented overlong))) ''male_voice_synced.wav'' = Some 12000"
proof -
  have run: "create_synchronized_tracks ''male_voice_synced.wav'' ''female_voice_synced.wav''
      (segmented overlong) =
    finish_tracks ''male_voice_synced.wav'' ''female_voice_synced.wav'' recording
      (replicate 12000 0, replicate 12000 0, 12000)
      ((py_print CreatingSynchronizedTracks (segmented overlong))\<lparr>audio := Some recording\<rparr>)"
    by (rule create_synchronized_tracks_loop [OF _ _ sync_loop_overlong])
      (simp_all add: segmented_simps)
  have rem: "remaining recording 12000 = []"
    by (simp add: remaining_def length_recording)
  show ?thesis
    unfolding run
    by (simp add: wav_length_finish_tracks fst_finish_tracks stdout_finish_tracks rem
        length_recording py_print_def segmented_simps)
qed

subsection \<open>Overlapping segments\<close>

lemma sync_step_nonneg:
  assumes "0 \<le> start_ms r" and "0 \<le> stop_ms r"
  shows "\<exists>acc'. sync_step a acc r = Inr acc'"
proof -
  obtain m f c where acc: "acc = (m, f, c)" by (cases acc) auto
  show ?thesis
    unfolding acc using assms by (simp add: audio_slice_nonneg Let_def)
qed

lemma sync_loop_nonneg:
  assumes "\<forall>r \<in> set rs. 0 \<le> start_ms r \<and> 0 \<le> stop_ms r"
  shows "\<exists>acc'. sync_loop a acc rs = Inr acc'"
  using assms
proof (induction rs arbitrary: acc)
  case Nil
  show ?case by (rule exI [of _ acc]) simp
next
  case (Cons r rs)
  then obtain acc' where "sync_step a acc r = Inr acc'"
    using sync_step_nonneg [of r a acc] by auto
  with Cons show ?case by simp
qed

lemma py_int_nonneg: "0 \<le> x \<Longrightarrow> 0 \<le> py_int x"
  by (simp add: py_int_def)

text \<open>
  C3, as amended. A cursor regression is not detected: for every segment list with
  non-negative times, overlapping and out-of-order ones included,
  \<open>create_synchronized_tracks\<close> raises nothing, exports both tracks and returns their names.
\<close>

theorem overlap_not_detected:
  assumes "segments_df s = Some df" and "files s (audio_file_path s) = Some (Wav a)"
    and "\<forall>r \<in> set df. 0 \<le> start r \<and> 0 \<le> stop r"
  shows "fst (create_synchronized_tracks male_output female_output s) =
           Returned (male_output, female_output)
       \<and> wav_length (snd (create_synchronized_tracks male_output female_output s)) male_output
           \<noteq> None
       \<and> wav_length (snd (create_synchronized_tracks male_output female_output s)) female_output
           \<noteq> None"
proof -
  have "\<forall>r \<in> set df. 0 \<le> start_ms r \<and> 0 \<le> stop_ms r"
    using assms(3) by (simp add: start_ms_def stop_ms_def py_int_nonneg)
  then obtain m f c where loop: "sync_loop a ([], [], 0) df = Inr (m, f, c)"
    using sync_loop_nonneg [of df a "([], [], 0)"] by (metis prod_cases3)
  show ?thesis
    unfolding create_synchronized_tracks_loop [OF assms(1,2) loop]
    by (simp add: finish_tracks_def Let_def wav_length_def write_file_def py_print_def)
qed

theorem overlap_not_detected_witness:
  "segments_df (segmented unordered) = Some unordered
   \<and> files (segmented unordered) (audio_file_path (segmented unordered)) = Some (Wav recording)
   \<and> list_all (\<lambda>r. 0 \<le> start r \<and> 0 \<le> stop r) unordered
   \<and> fst (create_synchronized_tracks ''male_voice_synced.wav'' ''female_voice_synced.wav''
        (segmented unordered)) = Returned (''male_voice_synced.wav'', ''female_voice_synced.wav'')
   \<and> wav_length (snd (create_synchronized_tracks ''male_voice_synced.wav''
        ''female_voice_synced.wav'' (segmented unordered))) ''male_voice_synced.wav'' \<noteq> None
   \<and> wav_length (snd (create_synchronized_tracks ''male_voice_synced.wav''
        ''female_voice_synced.wav'' (segmented unordered))) ''female_voice_synced.wav'' \<noteq> None"
proof -
  have h1: "segments_df (segmented unordered) = Some unordered"
    by (simp add: segmented_simps)
  have h2: "files (segmented unordered) (audio_file_path (segmented unordered)) =
      Some (Wav recording)"
    by (simp add: segmented_simps)
  have h3: "\<forall>r \<in> set unordered. 0 \<le> start r \<and> 0 \<le> stop r"
    by (simp add: unordered_def)
  show ?thesis
    using h1 h2 h3
      overlap_not_detected [OF h1 h2 h3, of "''male_voice_synced.wav''"
        "''female_voice_synced.wav''"]
    by (simp add: list_all_iff)
qed

text \<open>
  The claim as stated fails on the scenario of the specification, the segments
  \<open>(male, 0, 5)\<close> and \<open>(female, 3, 8)\<close> over a 10 s recording: no error is raised, and two
  tracks of 12 s are exported.
\<close>

theorem overlap_not_detected_counterexample:
  "fst (create_synchronized_tracks ''male_voice_synced.wav'' ''female_voice_synced.wav''
     (segmented overlapping)) = Returned (''male_voice_synced.wav'', ''female_voice_synced.wav'')
   \<and> wav_length (snd (create_synchronized_tracks ''male_voice_synced.wav''
         ''female_voice_synced.wav'' (segmented overlapping))) ''male_voice_synced.wav'' = Some 12000
   \<and> wav_length (snd (create_synchronized_tracks ''male_voice_synced.wav''
         ''female_voice_synced.wav'' (segmented overlapping))) ''female_voice_synced.wav'' = Some 12000"
proof -
  have run: "create_synchronized_tracks ''male_voice_synced.wav'' ''female_voice_synced.wav''
      (segmented overlapping) =
    finish_tracks ''male_voice_synced.wav'' ''female_voice_synced.wav'' recording
      (replicate 5000 7 @ replicate 5000 0, replicate 5000 0 @ replicate 5000 7, 8000)
      ((py_print CreatingSynchronizedTracks (segmented overlapping))\<lparr>audio := Some recording\<rparr>)"
    by (rule create_synchronized_tracks_loop [OF _ _ sync_loop_overlapping])
      (simp_all add: segmented_simps)
  have rem: "length (remaining recording 8000) = 2000"
    by (simp add: remaining_def length_silent length_recording)
  show ?thesis
    unfolding run
    by (simp add: wav_length_finish_tracks fst_finish_tracks rem)
qed

subsection \<open>A segment that stops after the end of the recording\<close>

text \<open>
  C4. The code does not clamp \<open>stop\<close>. On the segment \<open>(male, 9, 11)\<close> over a 10 s recording
  the male track receives the 1 s of audio that exists, the female track receives
  \<open>stop - start = 2 s\<close> of silence and the cursor moves to 11 s: the exported tracks are
  10 s and 11 s long.
\<close>

theorem stop_after_end_not_clamped:
  "sync_step recording (replicate 9000 0, replicate 9000 0, 9000)
       \<lparr>labels = ''male'', start = 9, stop = 11\<rparr> =
     Inr (replicate 9000 0 @ replicate 1000 7, replicate 9000 0 @ replicate 2000 0, 11000)
   \<and> wav_length (snd (create_synchronized_tracks ''male_voice_synced.wav''
         ''female_voice_synced.wav'' (segmented overrun))) ''male_voice_synced.wav'' = Some 10000
   \<and> wav_length (snd (create_synchronized_tracks ''male_voice_synced.wav''
         ''female_voice_synced.wav'' (segmented overrun))) ''female_voice_synced.wav'' = Some 11000"
proof -
  have run: "create_synchronized_tracks ''male_voice_synced.wav'' ''female_voice_synced.wav''
      (segmented overrun) =
    finish_tracks ''male_voice_synced.wav'' ''female_voice_synced.wav'' recording
      (replicate 9000 0 @ replicate 1000 7, replicate 11000 0, 11000)
      ((py_print CreatingSynchronizedTracks (segmented overrun))\<lparr>audio := Some recording\<rparr>)"
    by (rule create_synchronized_tracks_loop [OF _ _ sync_loop_overrun])
      (simp_all add: segmented_simps)
  have rem: "remaining recording 11000 = []"
    by (simp add: remaining_def length_recording)
  have step: "sync_step recording (replicate 9000 0, replicate 9000 0, 9000)
       \<lparr>labels = ''male'', start = 9, stop = 11\<rparr> =
     Inr (replicate 9000 0 @ replicate 1000 7, replicate 9000 0 @ replicate 2000 0, 11000)"
    by (simp add: eval_loop)
  show ?thesis
    unfolding run using step
    by (simp add: wav_length_finish_tracks rem)
qed

subsection \<open>The empty segment list\<close>

lemma len_recording_odd: "len_at 44100 recording_odd = 10000"
  by (simp add: len_at_def recording_odd_def py_round_def Let_def)

text \<open>
  C6, as amended. With an empty segment list both synchronized tracks are the silence
  \<open>AudioSegment.silent(duration=len(self.audio))\<close>: every frame is silent, and the length
  in whole milliseconds is that of the recording (for a frame rate above 2 kHz), so the
  three printed durations are equal; and \<open>extract_speaker_segments\<close> returns \<open>None\<close> for
  every label, without touching a file.
\<close>

theorem empty_segment_list:
  assumes "segments_df s = Some []" and "files s (audio_file_path s) = Some (Wav a)"
    and "2000 < frame_rate"
  shows "fst (create_synchronized_tracks_at frame_rate male_output female_output s) =
           Returned (male_output, female_output)
     \<and> files (snd (create_synchronized_tracks_at frame_rate male_output female_output s)) =
         (files s)(male_output \<mapsto> Wav (silent_at frame_rate (len_at frame_rate a)),
                   female_output \<mapsto> Wav (silent_at frame_rate (len_at frame_rate a)))
     \<and> list_all (\<lambda>frame. frame = 0) (silent_at frame_rate (len_at frame_rate a))
     \<and> len_at frame_rate (silent_at frame_rate (len_at frame_rate a)) = len_at frame_rate a
     \<and> stdout (snd (create_synchronized_tracks_at frame_rate male_output female_output s)) =
         stdout s @ [CreatingSynchronizedTracks,
           DurationVerification (len_at frame_rate a) (len_at frame_rate a) (len_at frame_rate a),
           SynchronizedTracksCreated male_output female_output]
     \<and> fst (extract_speaker_segments ffmpeg speaker_label output_filename s) = Returned None
     \<and> files (snd (extract_speaker_segments ffmpeg speaker_label output_filename s)) = files s"
proof -
  define n where "n = len_at frame_rate a"
  define track where "track = silent_at frame_rate n"
  have fr: "0 < frame_rate" "2000 < frame_rate" using assms(3) by simp_all
  have n0: "0 \<le> n" unfolding n_def by (rule len_at_nonneg [OF fr(1)])
  have rem: "remaining_at frame_rate a 0 = track"
  proof (cases "0 < n")
    case True
    then show ?thesis by (simp add: remaining_at_def n_def [symmetric] track_def)
  next
    case False
    with n0 have "n = 0" by simp
    then show ?thesis
      by (simp add: remaining_at_def n_def [symmetric] track_def silent_at_def py_int_def)
  qed
  have len: "len_at frame_rate track = n"
    unfolding track_def by (rule len_at_silent_at [OF fr(2) n0])
  have zero: "list_all (\<lambda>frame. frame = 0) track"
    by (simp add: track_def silent_at_def list_all_iff)
  have loop: "sync_loop_at frame_rate a ([], [], 0) [] = Inr ([], [], 0)" by simp
  have run: "create_synchronized_tracks_at frame_rate male_output female_output s =
      finish_tracks_at frame_rate male_output female_output a ([], [], 0)
        ((py_print CreatingSynchronizedTracks s)\<lparr>audio := Some a\<rparr>)"
    by (rule create_synchronized_tracks_at_loop [OF assms(1,2) loop])
  have sync: "fst (create_synchronized_tracks_at frame_rate male_output female_output s) =
           Returned (male_output, female_output)
     \<and> files (snd (create_synchronized_tracks_at frame_rate male_output female_output s)) =
         (files s)(male_output \<mapsto> Wav track, female_output \<mapsto> Wav track)
     \<and> stdout (snd (create_synchronized_tracks_at frame_rate male_output female_output s)) =
         stdout s @ [CreatingSynchronizedTracks, DurationVerification n n n,
           SynchronizedTracksCreated male_output female_output]"
    unfolding run
    by (simp add: finish_tracks_at_def Let_def rem len n_def [symmetric] write_file_def
        py_print_def)
  have absent: "fst (extract_speaker_segments ffmpeg speaker_label output_filename s) =
      Returned None
     \<and> files (snd (extract_speaker_segments ffmpeg speaker_label output_filename s)) = files s"
    using assms(1)
    by (simp add: extract_speaker_segments_def speaker_segments_def py_print_def
        enumerate_eq_zip Let_def)
  show ?thesis
    using sync zero len absent unfolding track_def n_def by simp
qed

theorem empty_segment_list_witness:
  "segments_df (recorded recording_odd []) = Some []
   \<and> files (recorded recording_odd []) (audio_file_path (recorded recording_odd [])) =
       Some (Wav recording_odd)
   \<and> (2000 :: int) < 44100
   \<and> fst (create_synchronized_tracks_at 44100 ''male_voice_synced.wav''
        ''female_voice_synced.wav'' (recorded recording_odd [])) =
       Returned (''male_voice_synced.wav'', ''female_voice_synced.wav'')
   \<and> files (snd (create_synchronized_tracks_at 44100 ''male_voice_synced.wav''
        ''female_voice_synced.wav'' (recorded recording_odd []))) =
       (files (recorded recording_odd []))
         (''male_voice_synced.wav'' \<mapsto> Wav (replicate 441000 0),
          ''female_voice_synced.wav'' \<mapsto> Wav (replicate 441000 0))
   \<and> len_at 44100 (replicate 441000 0) = len_at 44100 recording_odd
   \<and> stdout (snd (create_synchronized_tracks_at 44100 ''male_voice_synced.wav''
        ''female_voice_synced.wav'' (recorded recording_odd []))) =
       [CreatingSynchronizedTracks, DurationVerification 10000 10000 10000,
        SynchronizedTracksCreated ''male_voice_synced.wav'' ''female_voice_synced.wav'']
   \<and> fst (extract_speaker_segments (\<lambda>c fs. Failed None) ''male''
        ''male_voice_concatenated.wav'' (recorded recording_odd [])) = Returned None
   \<and> files (snd (extract_speaker_segments (\<lambda>c fs. Failed None) ''male''
        ''male_voice_concatenated.wav'' (recorded recording_odd []))) =
       files (recorded recording_odd [])"
proof -
  have h1: "segments_df (recorded recording_odd []) = Some []"
    by (simp add: recorded_simps)
  have h2: "files (recorded recording_odd []) (audio_file_path (recorded recording_odd [])) =
      Some (Wav recording_odd)"
    by (simp add: recorded_simps)
  have h3: "(2000 :: int) < 44100" by simp
  show ?thesis
    using h1 h2
      empty_segment_list [OF h1 h2 h3, of "''male_voice_synced.wav''"
        "''female_voice_synced.wav''" "\<lambda>c fs. Failed None" "''male''"
        "''male_voice_concatenated.wav''"]
    by (simp add: len_recording_odd silent_at_def py_int_def recorded_simps)
qed

lemma len_recording_slow: "len_at 1250 recording_slow = 999"
  by (simp add: len_at_def recording_slow_def py_round_def Let_def)

text \<open>
  The claim as stated fails on a recording of 441022 frames at 44.1 kHz, 10 s and 22
  frames: both tracks have 441000 frames, 22 samples less than the recording. At a frame
  rate below 2 kHz the tracks can be shorter in whole milliseconds too: a recording of
  1249 frames at 1.25 kHz gives tracks of 1248 frames, and the durations printed are
  0.999 s, 0.998 s and 0.998 s.
\<close>

theorem empty_segment_list_counterexample:
  "wav_frames (recorded recording_odd []) ''podcast.wav'' = Some 441022
   \<and> wav_frames (snd (create_synchronized_tracks_at 44100 ''male_voice_synced.wav''
        ''female_voice_synced.wav'' (recorded recording_odd []))) ''male_voice_synced.wav'' =
       Some 441000
   \<and> wav_frames (snd (create_synchronized_tracks_at 44100 ''male_voice_synced.wav''
        ''female_voice_synced.wav'' (recorded recording_odd []))) ''female_voice_synced.wav'' =
       Some 441000
   \<and> wav_frames (recorded recording_slow []) ''podcast.wav'' = Some 1249
   \<and> wav_frames (snd (create_synchronized_tracks_at 1250 ''male_voice_synced.wav''
        ''female_voice_synced.wav'' (recorded recording_slow []))) ''male_voice_synced.wav'' =
       Some 1248
   \<and> stdout (snd (create_synchronized_tracks_at 1250 ''male_voice_synced.wav''
        ''female_voice_synced.wav'' (recorded recording_slow []))) =
       [CreatingSynchronizedTracks, DurationVerification 999 998 998,
        SynchronizedTracksCreated ''male_voice_synced.wav'' ''female_voice_synced.wav'']"
proof -
  have run: "create_synchronized_tracks_at frame_rate ''male_voice_synced.wav''
      ''female_voice_synced.wav'' (recorded a []) =
    finish_tracks_at frame_rate ''male_voice_synced.wav'' ''female_voice_synced.wav'' a
      ([], [], 0)
      ((py_print CreatingSynchronizedTracks (recorded a []))\<lparr>audio := Some a\<rparr>)"
    for frame_rate a
  proof -
    have loop: "sync_loop_at frame_rate a ([], [], 0) [] = Inr ([], [], 0)" by simp
    show ?thesis
      by (rule create_synchronized_tracks_at_loop [OF _ _ loop]) (simp_all add: recorded_simps)
  qed
  have rem: "remaining_at 44100 recording_odd 0 = replicate 441000 0"
    by (simp add: remaining_at_def len_recording_odd silent_at_def py_int_def)
  have rem_slow: "remaining_at 1250 recording_slow 0 = replicate 1248 0"
    by (simp add: remaining_at_def len_recording_slow silent_at_def py_int_def)
  have len_track: "len_at 1250 (replicate 1248 0) = 998"
    by (simp add: len_at_def py_round_def Let_def)
  have source: "wav_frames (recorded recording_odd []) ''podcast.wav'' = Some 441022"
    "wav_frames (recorded recording_slow []) ''podcast.wav'' = Some 1249"
    by (simp_all add: wav_frames_def recorded_simps recording_odd_def recording_slow_def)
  show ?thesis
    unfolding run using source
    by (simp add: finish_tracks_at_def Let_def rem rem_slow len_track len_recording_slow
        wav_frames_def write_file_def py_print_def recorded_simps)
qed

subsection \<open>The stereo mix\<close>

lemma subprocess_run_fst:
  "fst (subprocess_run ffmpeg cmd s) = succeeded (ffmpeg cmd (files s))"
  by (simp add: subprocess_run_def split: ffmpeg_result.splits option.splits)

lemma files_py_print: "files (py_print m s) = files s"
  by (simp add: py_print_def)

text \<open>
  C5, as amended. \<open>create_stereo_mix\<close> never looks at the lengths of its two inputs and
  never raises: it returns \<open>None\<close> when one of the files is missing or \<open>ffmpeg\<close> fails, and
  the output name whenever both files exist and \<open>ffmpeg\<close> exits with status 0.
\<close>

theorem stereo_mix_compares_no_lengths:
  "fst (create_stereo_mix ffmpeg male_file female_file output_filename s) =
     (if files s male_file \<noteq> None \<and> files s female_file \<noteq> None
         \<and> succeeded (ffmpeg (Amerge male_file female_file output_filename) (files s))
      then Returned (Some output_filename) else Returned None)"
proof -
  have "fst (subprocess_run ffmpeg (Amerge male_file female_file output_filename)
          (py_print CreatingStereoMix s)) =
        succeeded (ffmpeg (Amerge male_file female_file output_filename) (files s))"
    by (simp add: subprocess_run_fst files_py_print)
  then show ?thesis
    by (auto simp: create_stereo_mix_def Let_def split: prod.splits bool.splits)
qed

text \<open>
  The claim as stated fails on tracks of 10.0 s and 9.999 s: when \<open>ffmpeg\<close> exits with
  status 0, the stereo file is written and its name returned.
\<close>

theorem stereo_mix_compares_no_lengths_counterexample:
  "wav_length unequal_tracks ''male_voice_synced.wav'' = Some 10000
   \<and> wav_length unequal_tracks ''female_voice_synced.wav'' = Some 9999
   \<and> fst (create_stereo_mix (ffmpeg_fails_on {}) ''male_voice_synced.wav''
        ''female_voice_synced.wav'' ''stereo_mix.wav'' unequal_tracks) =
       Returned (Some ''stereo_mix.wav'')
   \<and> files (snd (create_stereo_mix (ffmpeg_fails_on {}) ''male_voice_synced.wav''
        ''female_voice_synced.wav'' ''stereo_mix.wav'' unequal_tracks)) ''stereo_mix.wav'' =
       Some (Wav [])"
  by (simp add: unequal_tracks_def fresh_def wav_length_def create_stereo_mix_def
      ffmpeg_fails_on_def subprocess_run_def py_print_def write_file_def Let_def)

subsection \<open>The archive\<close>

lemma zip_write_names:
  assumes "list_all (\<lambda>f. fs f \<noteq> None) segment_files"
  shows "fst (zip_write fs segment_files entries) = None
       \<and> map fst (snd (zip_write fs segment_files entries)) =
           map fst entries @ map basename segment_files"
  using assms
  by (induction segment_files arbitrary: entries) (auto split: option.splits)

text \<open>
  C8. Given no segment file for the label, \<open>create_segment_archive\<close> reports it, writes no
  archive and returns \<open>None\<close> (the empty-archive outcome; the code raises nothing). Given
  files that exist, it writes an archive with one entry per file, in order, each named by
  the base name of its file, and returns the archive name.
\<close>

theorem segment_archive_entries:
  assumes "list_all (\<lambda>f. files s f \<noteq> None) (glob (speaker_label @ ''_segment*.wav'') (files s))"
  shows "(glob (speaker_label @ ''_segment*.wav'') (files s) = [] \<longrightarrow>
            create_segment_archive glob speaker_label archive_name_arg s =
              (Returned None, py_print (NoSegmentFilesFound speaker_label) s))
       \<and> (glob (speaker_label @ ''_segment*.wav'') (files s) \<noteq> [] \<longrightarrow>
            fst (create_segment_archive glob speaker_label archive_name_arg s) =
              Returned (Some (case archive_name_arg of
                                None \<Rightarrow> speaker_label @ ''_segments.zip'' | Some n \<Rightarrow> n))
          \<and> zip_names (snd (create_segment_archive glob speaker_label archive_name_arg s))
              (case archive_name_arg of None \<Rightarrow> speaker_label @ ''_segments.zip'' | Some n \<Rightarrow> n) =
              Some (map basename (glob (speaker_label @ ''_segment*.wav'') (files s))))"
proof -
  define name where
    "name = (case archive_name_arg of None \<Rightarrow> speaker_label @ ''_segments.zip'' | Some n \<Rightarrow> n)"
  define segs where "segs = glob (speaker_label @ ''_segment*.wav'') (files s)"
  have "list_all (\<lambda>f. ((files s)(name \<mapsto> Zip [])) f \<noteq> None) segs"
    using assms by (simp add: list_all_iff segs_def)
  note zw = zip_write_names [OF this, of "[]"]
  show ?thesis
    unfolding create_segment_archive_def Let_def name_def [symmetric] segs_def [symmetric]
    by (simp add: zip_names_def write_file_def py_print_def zw [THEN conjunct1]
        zw [THEN conjunct2])
qed

theorem segment_archive_entries_witness:
  "list_all (\<lambda>f. files two_clips f \<noteq> None) (glob_two_clips (''male'' @ ''_segment*.wav'') (files two_clips))
   \<and> glob_two_clips (''male'' @ ''_segment*.wav'') (files two_clips) \<noteq> []
   \<and> fst (create_segment_archive glob_two_clips ''male'' None two_clips) =
       Returned (Some ''male_segments.zip'')
   \<and> zip_names (snd (create_segment_archive glob_two_clips ''male'' None two_clips))
       ''male_segments.zip'' = Some [''male_segment_0.wav'', ''male_segment_1.wav'']
   \<and> list_all (\<lambda>f. files two_clips f \<noteq> None) (glob_two_clips (''female'' @ ''_segment*.wav'') (files two_clips))
   \<and> glob_two_clips (''female'' @ ''_segment*.wav'') (files two_clips) = []
   \<and> create_segment_archive glob_two_clips ''female'' None two_clips =
       (Returned None, py_print (NoSegmentFilesFound ''female'') two_clips)"
proof -
  have h1: "list_all (\<lambda>f. files two_clips f \<noteq> None)
      (glob_two_clips (''male'' @ ''_segment*.wav'') (files two_clips))"
    by (simp add: two_clips_def glob_two_clips_def)
  have h2: "list_all (\<lambda>f. files two_clips f \<noteq> None)
      (glob_two_clips (''female'' @ ''_segment*.wav'') (files two_clips))"
    by (simp add: two_clips_def glob_two_clips_def)
  have g1: "glob_two_clips ''male_segment*.wav'' (files two_clips) =
      [''male_segment_0.wav'', ''male_segment_1.wav'']"
    by (simp add: glob_two_clips_def)
  have g2: "glob_two_clips ''female_segment*.wav'' (files two_clips) = []"
    by (simp add: glob_two_clips_def)
  show ?thesis
    using h1 h2
      segment_archive_entries [where s = two_clips and glob = glob_two_clips
        and speaker_label = "''male''" and archive_name_arg = None]
      segment_archive_entries [where s = two_clips and glob = glob_two_clips
        and speaker_label = "''female''" and archive_name_arg = None]
    by (simp add: g1 g2 basename_def)
qed

subsection \<open>The extraction loop\<close>

lemma extract_step_cases:
  "extract_step ffmpeg l (sf, s) (idx, r) =
     (case ffmpeg (Extract (audio_file_path s) (start r) (stop r) (segment_file_name l idx))
             (files s) of
        Succeeded c \<Rightarrow>
          (sf @ [segment_file_name l idx], write_file (segment_file_name l idx) c s)
      | Failed None \<Rightarrow> (sf, py_print (ErrorExtractingSegment idx) s)
      | Failed (Some c) \<Rightarrow>
          (sf, py_print (ErrorExtractingSegment idx) (write_file (segment_file_name l idx) c s)))"
  by (simp add: subprocess_run_def Let_def split: ffmpeg_result.splits option.splits)





lemma extract_loop_files:
  assumes "list_all (\<lambda>f. files s f \<noteq> None) sf"
  shows "list_all (\<lambda>f. files (snd (extract_loop ffmpeg l (sf, s) xs)) f \<noteq> None)
           (fst (extract_loop ffmpeg l (sf, s) xs))"
  using assms
proof (induction xs arbitrary: sf s)
  case Nil
  then show ?case by simp
next
  case (Cons x xs)
  obtain idx r where x: "x = (idx, r)" by (cases x)
  obtain sf' s' where step: "extract_step ffmpeg l (sf, s) (idx, r) = (sf', s')"
    by (cases "extract_step ffmpeg l (sf, s) (idx, r)")
  from step Cons.prems have "list_all (\<lambda>f. files s' f \<noteq> None) sf'"
    unfolding extract_step_cases
    by (auto simp: py_print_def write_file_def list_all_iff
        split: ffmpeg_result.splits option.splits)
  from Cons.IH [OF this] show ?case
    unfolding x extract_loop.simps step .
qed

lemma extract_loop_undeletable:
  "undeletable (snd (extract_loop ffmpeg l (sf, s) xs)) = undeletable s"
proof (induction xs arbitrary: sf s)
  case Nil
  then show ?case by simp
next
  case (Cons x xs)
  obtain idx r where x: "x = (idx, r)" by (cases x)
  obtain sf' s' where step: "extract_step ffmpeg l (sf, s) (idx, r) = (sf', s')"
    by (cases "extract_step ffmpeg l (sf, s) (idx, r)")
  from step have "undeletable s' = undeletable s"
    unfolding extract_step_cases
    by (auto simp: py_print_def write_file_def split: ffmpeg_result.splits option.splits)
  with Cons.IH [of sf' s'] show ?case
    unfolding x extract_loop.simps step by simp
qed




lemma str_nat_digits:
  "str_nat 0 = ''0''" "str_nat (Suc 0) = ''1''" "str_nat (Suc (Suc 0)) = ''2''"
  "str_nat (Suc (Suc (Suc 0))) = ''3''" "str_nat (Suc (Suc (Suc (Suc 0)))) = ''4''"
  by (simp_all add: str_nat.simps)

lemmas eval_extract = slicing_def speaker_segments_def five_male_def scenario_def
  segmented_def fresh_def py_print_def write_file_def subprocess_run_def ffmpeg_fails_on_def
  segment_file_name_def list_file_name_def str_nat_digits Let_def




subsection \<open>Temporary files\<close>

lemma cleanup_keeps_none:
  "files s f = None \<Longrightarrow> files (cleanup_temp_files fl s) f = None"
  by (induction fl arbitrary: s) (auto simp: py_print_def)

lemma cleanup_removes:
  "f \<in> set fl \<Longrightarrow> f \<notin> undeletable s \<Longrightarrow> files (cleanup_temp_files fl s) f = None"
proof (induction fl arbitrary: s)
  case Nil
  then show ?case by simp
next
  case (Cons a fl)
  show ?case
  proof (cases "a = f")
    case True
    have "files (if files s f \<noteq> None then
              (if f \<in> undeletable s then py_print (CouldNotRemove f) s
               else s\<lparr>files := (files s)(f := None)\<rparr>)
            else s) f = None"
      using Cons.prems(2) by simp
    then show ?thesis
      unfolding True cleanup_temp_files.simps by (rule cleanup_keeps_none)
  next
    case False
    with Cons.prems have "f \<in> set fl" by simp
    from Cons.IH [OF this] Cons.prems(2) show ?thesis by (simp add: py_print_def)
  qed
qed

text \<open>
  C10. Once a clip has been cut, the two endings of \<open>extract_speaker_segments\<close> are: the
  concatenation fails, the method returns \<open>None\<close> and every clip and the list file are
  still on disk; or it succeeds, the method returns the output name, and every clip and
  the list file that the system lets it remove is gone.
\<close>

theorem temp_files_removed_only_on_success:
  assumes "segments_df s = Some df" and "fst (slicing ffmpeg speaker_label df s) \<noteq> []"
  shows "(\<not> succeeded (ffmpeg (Concat (list_file_name speaker_label) output_filename)
              (files_at_concat speaker_label (slicing ffmpeg speaker_label df s))) \<longrightarrow>
            fst (extract_speaker_segments ffmpeg speaker_label output_filename s) = Returned None
          \<and> list_all
              (\<lambda>f. files (snd (extract_speaker_segments ffmpeg speaker_label output_filename s)) f
                     \<noteq> None)
              (fst (slicing ffmpeg speaker_label df s) @ [list_file_name speaker_label]))
       \<and> (succeeded (ffmpeg (Concat (list_file_name speaker_label) output_filename)
              (files_at_concat speaker_label (slicing ffmpeg speaker_label df s))) \<longrightarrow>
            fst (extract_speaker_segments ffmpeg speaker_label output_filename s) =
              Returned (Some output_filename)
          \<and> list_all
              (\<lambda>f. f \<in> undeletable s
                   \<or> files (snd (extract_speaker_segments ffmpeg speaker_label output_filename s)) f
                       = None)
              (fst (slicing ffmpeg speaker_label df s) @ [list_file_name speaker_label]))"
proof -
  let ?res = "slicing ffmpeg speaker_label df s"
  let ?temp = "fst ?res @ [list_file_name speaker_label]"
  have segs: "speaker_segments df speaker_label \<noteq> []"
    using assms(2) by (auto simp: slicing_def)
  have run: "extract_speaker_segments ffmpeg speaker_label output_filename s =
      concat_segments ffmpeg speaker_label output_filename (fst ?res) (snd ?res)"
    using assms segs by (simp add: extract_speaker_segments_def slicing_def Let_def)
  have clips: "list_all (\<lambda>f. files (snd ?res) f \<noteq> None) (fst ?res)"
    unfolding slicing_def by (rule extract_loop_files) simp
  have und: "undeletable (snd ?res) = undeletable s"
    by (simp add: slicing_def extract_loop_undeletable py_print_def)
  have failure: "fst (concat_segments ffmpeg speaker_label output_filename (fst ?res) (snd ?res)) =
        Returned None
      \<and> list_all (\<lambda>f. files (snd (concat_segments ffmpeg speaker_label output_filename
            (fst ?res) (snd ?res))) f \<noteq> None) ?temp"
    if bad: "\<not> succeeded (ffmpeg (Concat (list_file_name speaker_label) output_filename)
          (files_at_concat speaker_label ?res))"
  proof -
    obtain p where p: "ffmpeg (Concat (list_file_name speaker_label) output_filename)
        (files_at_concat speaker_label ?res) = Failed p"
      using bad by (cases "ffmpeg (Concat (list_file_name speaker_label) output_filename)
        (files_at_concat speaker_label ?res)") auto
    define s3 where
      "s3 = write_file (list_file_name speaker_label) (ListFile (fst ?res)) (snd ?res)"
    define s4 where
      "s4 = (case p of None \<Rightarrow> s3 | Some c \<Rightarrow> write_file output_filename c s3)"
    have cs: "concat_segments ffmpeg speaker_label output_filename (fst ?res) (snd ?res) =
        (Returned None, py_print ErrorConcatenating s4)"
      using p
      by (simp add: concat_segments_def files_at_concat_def subprocess_run_def write_file_def
          Let_def s3_def s4_def split: option.splits)
    have "\<forall>f \<in> set ?temp. files s3 f \<noteq> None"
      using clips by (auto simp: s3_def write_file_def list_all_iff)
    then have "\<forall>f \<in> set ?temp. files s4 f \<noteq> None"
      by (cases p) (auto simp: s4_def write_file_def)
    then have "list_all (\<lambda>f. files (py_print ErrorConcatenating s4) f \<noteq> None) ?temp"
      unfolding list_all_iff by (simp add: py_print_def)
    then show ?thesis
      unfolding cs fst_conv snd_conv by (rule conjI [OF refl])
  qed
  have success: "fst (concat_segments ffmpeg speaker_label output_filename (fst ?res) (snd ?res)) =
        Returned (Some output_filename)
      \<and> list_all (\<lambda>f. f \<in> undeletable s \<or> files (snd (concat_segments ffmpeg speaker_label
            output_filename (fst ?res) (snd ?res))) f = None) ?temp"
    if ok: "succeeded (ffmpeg (Concat (list_file_name speaker_label) output_filename)
          (files_at_concat speaker_label ?res))"
  proof -
    obtain c where c: "ffmpeg (Concat (list_file_name speaker_label) output_filename)
        (files_at_concat speaker_label ?res) = Succeeded c"
      using ok by (cases "ffmpeg (Concat (list_file_name speaker_label) output_filename)
        (files_at_concat speaker_label ?res)") auto
    define s4 where "s4 = py_print (SuccessfullyCreated output_filename)
      (write_file output_filename c
        (write_file (list_file_name speaker_label) (ListFile (fst ?res)) (snd ?res)))"
    have cs: "concat_segments ffmpeg speaker_label output_filename (fst ?res) (snd ?res) =
        (Returned (Some output_filename), cleanup_temp_files ?temp s4)"
      using c
      by (simp add: concat_segments_def files_at_concat_def subprocess_run_def write_file_def
          Let_def s4_def)
    have und4: "undeletable s4 = undeletable s"
      by (simp add: s4_def py_print_def write_file_def und)
    have "f \<in> undeletable s \<or> files (cleanup_temp_files ?temp s4) f = None"
      if "f \<in> set ?temp" for f
    proof (cases "f \<in> undeletable s")
      case True
      then show ?thesis by simp
    next
      case False
      then have "f \<notin> undeletable s4" by (simp add: und4)
      from cleanup_removes [OF that this] show ?thesis by simp
    qed
    then have "list_all (\<lambda>f. f \<in> undeletable s \<or> files (cleanup_temp_files ?temp s4) f = None)
        ?temp"
      unfolding list_all_iff by (rule ballI)
    then show ?thesis
      unfolding cs fst_conv snd_conv by (rule conjI [OF refl])
  qed
  show ?thesis
    unfolding run
  proof (intro conjI impI)
    assume bad: "\<not> succeeded (ffmpeg (Concat (list_file_name speaker_label) output_filename)
        (files_at_concat speaker_label ?res))"
    from failure [OF bad] show "fst (concat_segments ffmpeg speaker_label output_filename
        (fst ?res) (snd ?res)) = Returned None" by (rule conjunct1)
    from failure [OF bad] show "list_all (\<lambda>f. files (snd (concat_segments ffmpeg speaker_label
        output_filename (fst ?res) (snd ?res))) f \<noteq> None) ?temp" by (rule conjunct2)
  next
    assume ok: "succeeded (ffmpeg (Concat (list_file_name speaker_label) output_filename)
        (files_at_concat speaker_label ?res))"
    from success [OF ok] show "fst (concat_segments ffmpeg speaker_label output_filename
        (fst ?res) (snd ?res)) = Returned (Some output_filename)" by (rule conjunct1)
    from success [OF ok] show "list_all (\<lambda>f. f \<in> undeletable s \<or> files (snd (concat_segments
        ffmpeg speaker_label output_filename (fst ?res) (snd ?res))) f = None) ?temp"
      by (rule conjunct2)
  qed
qed


lemma slicing_scenario:
  "fst (slicing (ffmpeg_fails_on bad) ''male'' scenario (segmented scenario)) =
     (if ''male_segment_0.wav'' \<in> bad then [] else [''male_segment_0.wav''])
     @ (if ''male_segment_2.wav'' \<in> bad then [] else [''male_segment_2.wav''])"
  by (simp add: eval_extract)

theorem temp_files_removed_only_on_success_witness:
  "segments_df (segmented scenario) = Some scenario
   \<and> fst (slicing (ffmpeg_fails_on {''male_voice_concatenated.wav''}) ''male'' scenario
        (segmented scenario)) = [''male_segment_0.wav'', ''male_segment_2.wav'']
   \<and> \<not> succeeded (ffmpeg_fails_on {''male_voice_concatenated.wav''}
        (Concat (list_file_name ''male'') ''male_voice_concatenated.wav'')
        (files_at_concat ''male'' (slicing (ffmpeg_fails_on {''male_voice_concatenated.wav''})
           ''male'' scenario (segmented scenario))))
   \<and> fst (extract_speaker_segments (ffmpeg_fails_on {''male_voice_concatenated.wav''}) ''male''
        ''male_voice_concatenated.wav'' (segmented scenario)) = Returned None
   \<and> list_all
        (\<lambda>f. files (snd (extract_speaker_segments
                 (ffmpeg_fails_on {''male_voice_concatenated.wav''}) ''male''
                 ''male_voice_concatenated.wav'' (segmented scenario))) f \<noteq> None)
        [''male_segment_0.wav'', ''male_segment_2.wav'', ''male_segments.txt'']
   \<and> fst (slicing (ffmpeg_fails_on {}) ''male'' scenario (segmented scenario)) =
        [''male_segment_0.wav'', ''male_segment_2.wav'']
   \<and> succeeded (ffmpeg_fails_on {}
        (Concat (list_file_name ''male'') ''male_voice_concatenated.wav'')
        (files_at_concat ''male'' (slicing (ffmpeg_fails_on {}) ''male'' scenario
           (segmented scenario))))
   \<and> fst (extract_speaker_segments (ffmpeg_fails_on {}) ''male''
        ''male_voice_concatenated.wav'' (segmented scenario)) =
       Returned (Some ''male_voice_concatenated.wav'')
   \<and> list_all
        (\<lambda>f. files (snd (extract_speaker_segments (ffmpeg_fails_on {}) ''male''
                 ''male_voice_concatenated.wav'' (segmented scenario))) f = None)
        [''male_segment_0.wav'', ''male_segment_2.wav'', ''male_segments.txt'']"
proof -
  have h1: "segments_df (segmented scenario) = Some scenario"
    by (simp add: segmented_simps)
  have f: "fst (slicing (ffmpeg_fails_on {''male_voice_concatenated.wav''}) ''male'' scenario
      (segmented scenario)) = [''male_segment_0.wav'', ''male_segment_2.wav'']"
    by (simp add: slicing_scenario)
  have g: "fst (slicing (ffmpeg_fails_on {}) ''male'' scenario (segmented scenario)) =
      [''male_segment_0.wav'', ''male_segment_2.wav'']"
    by (simp add: slicing_scenario)
  have h2f: "fst (slicing (ffmpeg_fails_on {''male_voice_concatenated.wav''}) ''male'' scenario
      (segmented scenario)) \<noteq> []"
    by (simp add: f)
  have h2g: "fst (slicing (ffmpeg_fails_on {}) ''male'' scenario (segmented scenario)) \<noteq> []"
    by (simp add: g)
  have und: "undeletable (segmented scenario) = {}"
    by (simp add: segmented_def fresh_def)
  show ?thesis
    using h1
      temp_files_removed_only_on_success [OF h1 h2f, of "''male_voice_concatenated.wav''"]
      temp_files_removed_only_on_success [OF h1 h2g, of "''male_voice_concatenated.wav''"]
    by (simp add: f g und ffmpeg_fails_on_def list_file_name_def)
qed

end
